theory Spec2Isabelle
  imports Complex_Main "HOL-Library.Sublist"
begin

section \<open>The Kubernetes cluster node pool resource\<close>

text \<open>
  A shallow embedding of \<^verbatim>\<open>kubernetes_cluster_node_pool_resource.go\<close>: the pre-flight
  check \<^verbatim>\<open>customizeDiff\<close> and the four lifecycle operations of the node pool
  resource. Go values of type \<^verbatim>\<open>int\<close> are \<open>int\<close>, the conversion to
  \<^verbatim>\<open>int32\<close> is written out, pointers are \<open>option\<close> (\<open>None\<close> is
  \<^verbatim>\<open>nil\<close>), a Go map is the list of its entries, a \<^verbatim>\<open>float64\<close> is
  a \<open>real\<close> (the code only copies it and compares it with zero), and every remote call
  is recorded in a history of calls.
\<close>

subsection \<open>Data\<close>

text \<open>The keys of the schema (lines 45 to 185), as \<^verbatim>\<open>d.Get\<close> reads them.\<close>

record config =
  name :: string
  kubernetes_cluster_id :: string
  node_count :: int
  tags :: "(string \<times> string) list"
  vm_size :: string
  availability_zones :: "string list"
  enable_auto_scaling :: bool
  enable_node_public_ip :: bool
  max_count :: int
  max_pods :: int
  min_count :: int
  node_labels :: "(string \<times> string) list"
  node_taints :: "string list"
  os_disk_size_gb :: int
  os_type :: string
  vnet_subnet_id :: string
  priority :: string
  eviction_policy :: string
  max_bid_price :: real

text \<open>
  \<^verbatim>\<open>schema.ResourceData\<close>: the identifier, the new-resource flag, the partial
  flag, the prior state and the values that \<^verbatim>\<open>d.Get\<close> returns and
  \<^verbatim>\<open>d.Set\<close> writes.
\<close>

record resource_data =
  Id :: string
  IsNewResource :: bool
  Partial :: bool
  old :: config
  new :: config

text \<open>\<^verbatim>\<open>containerservice.ManagedClusterAgentPoolProfileProperties\<close>, the fields the code touches.\<close>

record profile =
  Count :: "int option"
  VMSize :: string
  OsDiskSizeGB :: "int option"
  VnetSubnetID :: "string option"
  MaxPods :: "int option"
  OsType :: string
  MaxCount :: "int option"
  MinCount :: "int option"
  EnableAutoScaling :: "bool option"
  Type :: string
  AvailabilityZones :: "string list option"
  EnableNodePublicIP :: "bool option"
  ScaleSetPriority :: string
  ScaleSetEvictionPolicy :: string
  SpotMaxPrice :: "real option"
  Tags :: "(string \<times> string option) list option"
  NodeLabels :: "(string \<times> string option) list option"
  NodeTaints :: "string list option"

text \<open>\<^verbatim>\<open>containerservice.AgentPool\<close>.\<close>

record agent_pool =
  pool_ID :: "string option"
  pool_Name :: "string option"
  ManagedClusterAgentPoolProfileProperties :: "profile option"

text \<open>
  \<^verbatim>\<open>containerservice.ManagedCluster\<close>: its identifier and, of each agent pool
  profile of its properties, the \<^verbatim>\<open>Type\<close>.
\<close>

record managed_cluster_properties =
  AgentPoolProfiles :: "string list option"

record managed_cluster =
  cluster_ID :: "string option"
  ManagedClusterProperties :: "managed_cluster_properties option"

text \<open>
  Errors as values. \<open>Errorf\<close> keeps the format string of \<^verbatim>\<open>fmt.Errorf\<close>
  and the arguments in order; \<open>External\<close> is an error handed back by an identifier
  parser; \<open>NilDereference\<close> is the run-time panic of reading through a nil pointer.
\<close>

datatype error =
    ErrorsNew string
  | Errorf string "string list"
  | ImportAsExistsError string string
  | External string
  | NilDereference

text \<open>The constants of package \<^verbatim>\<open>containerservice\<close> that the file names.\<close>

definition Regular :: string where "Regular = ''Regular''"
definition Spot :: string where "Spot = ''Spot''"
definition Linux :: string where "Linux = ''Linux''"
definition Windows :: string where "Windows = ''Windows''"
definition Delete :: string where "Delete = ''Delete''"
definition Deallocate :: string where "Deallocate = ''Deallocate''"
definition VirtualMachineScaleSets :: string where
  "VirtualMachineScaleSets = ''VirtualMachineScaleSets''"

text \<open>The conversion \<^verbatim>\<open>int32(x)\<close>: the low 32 bits, read as two's complement.\<close>

definition int32 :: "int \<Rightarrow> int" where
  "int32 x = (x + 2 ^ 31) mod 2 ^ 32 - 2 ^ 31"

subsection \<open>Helpers of other packages\<close>

text \<open>
  Modelled from the spec: \<^verbatim>\<open>utils.ExpandStringSlice\<close> is not among the sources; it
  copies the declared sequence of strings into a fresh slice and returns a pointer to it,
  never nil.
\<close>

definition ExpandStringSlice :: "string list \<Rightarrow> string list" where
  "ExpandStringSlice input = input"

text \<open>
  Modelled from the spec: \<^verbatim>\<open>utils.FlattenStringSlice\<close> is not among the sources; a
  nil pointer gives the empty sequence, any other the sequence it points to.
\<close>

definition FlattenStringSlice :: "string list option \<Rightarrow> string list" where
  "FlattenStringSlice input = (case input of None \<Rightarrow> [] | Some xs \<Rightarrow> xs)"

text \<open>
  Modelled from the spec: \<^verbatim>\<open>utils.ExpandMapStringPtrString\<close> and
  \<^verbatim>\<open>tags.Expand\<close> are not among the sources; each entry of the declared mapping
  from string to string becomes an entry with a pointer to its value.
\<close>

definition ExpandMapStringPtrString :: "(string \<times> string) list \<Rightarrow> (string \<times> string option) list" where
  "ExpandMapStringPtrString input = map (\<lambda>(k, v). (k, Some v)) input"

definition tags_Expand :: "(string \<times> string) list \<Rightarrow> (string \<times> string option) list" where
  "tags_Expand tagsMap = map (\<lambda>(k, v). (k, Some v)) tagsMap"

text \<open>
  Modelled from the spec: \<^verbatim>\<open>tags.Flatten\<close> (under \<^verbatim>\<open>tags.FlattenAndSet\<close>) is
  not among the sources; an entry with a nil value is left out, every other entry keeps
  its value, and a nil map gives the empty mapping.
\<close>

fun flatten_entries :: "(string \<times> string option) list \<Rightarrow> (string \<times> string) list" where
  "flatten_entries [] = []"
| "flatten_entries ((k, None) # xs) = flatten_entries xs"
| "flatten_entries ((k, Some v) # xs) = (k, v) # flatten_entries xs"

definition tags_Flatten :: "(string \<times> string option) list option \<Rightarrow> (string \<times> string) list" where
  "tags_Flatten tagMap = (case tagMap of None \<Rightarrow> [] | Some m \<Rightarrow> flatten_entries m)"

text \<open>
  Modelled from the spec: the \<^verbatim>\<open>d.Set\<close> of a mapping in \<^verbatim>\<open>schema.ResourceData\<close>
  is not among the sources. The mapping is stored flat, one entry per key beside the
  entries \<^verbatim>\<open>%\<close> and \<^verbatim>\<open>#\<close> that hold counts, so what \<^verbatim>\<open>d.Get\<close> reads back
  afterwards has no entry with the key \<^verbatim>\<open>%\<close> or \<^verbatim>\<open>#\<close>. Of a mapping of string
  pointers, an entry with a nil value is stored as the empty string, and a nil map as
  the empty mapping.
\<close>

definition Set_map :: "(string \<times> string) list \<Rightarrow> (string \<times> string) list" where
  "Set_map m = filter (\<lambda>(k, v). k \<noteq> ''%'' \<and> k \<noteq> ''#'') m"

definition Set_map_ptr :: "(string \<times> string option) list option \<Rightarrow> (string \<times> string) list" where
  "Set_map_ptr m =
     (case m of
        None \<Rightarrow> []
      | Some xs \<Rightarrow> Set_map (map (\<lambda>(k, v). (k, case v of None \<Rightarrow> [] | Some s \<Rightarrow> s)) xs))"

subsection \<open>The schema\<close>

text \<open>
  The \<^verbatim>\<open>ValidateFunc\<close>s and defaults of the schema whose validators are in the file
  (lines 60 to 177). A key that is not configured reads as the zero value, so an integer
  key bounded by \<^verbatim>\<open>IntBetween(1, 100)\<close> reads as 0 or as a value from 1 to 100.
\<close>

definition schema_valid :: "config \<Rightarrow> bool" where
  "schema_valid c \<longleftrightarrow>
     (node_count c = 0 \<or> (1 \<le> node_count c \<and> node_count c \<le> 100)) \<and>
     vm_size c \<noteq> [] \<and>
     (max_count c = 0 \<or> (1 \<le> max_count c \<and> max_count c \<le> 100)) \<and>
     (min_count c = 0 \<or> (1 \<le> min_count c \<and> min_count c \<le> 100)) \<and>
     (os_disk_size_gb c = 0 \<or> 1 \<le> os_disk_size_gb c) \<and>
     (os_type c = Linux \<or> os_type c = Windows) \<and>
     (priority c = Regular \<or> priority c = Spot) \<and>
     (eviction_policy c = [] \<or> eviction_policy c = Delete \<or> eviction_policy c = Deallocate)"

subsection \<open>customizeDiff\<close>

text \<open>
  Lines 189 to 215. \<^verbatim>\<open>d.GetOk\<close> returns the value of a key and whether the key is set
  to a value other than the zero value of its type.
\<close>

definition customizeDiff :: "config \<Rightarrow> error option" where
  "customizeDiff d =
    (let priority0 = priority d;
         hasEvictionPolicy = (eviction_policy d \<noteq> []);
         hasMaxBidPrice = (max_bid_price d \<noteq> 0);
         errMsg = [];
         errMsg =
           (if priority0 = Regular then
              (let errMsg =
                     (if hasMaxBidPrice
                      then ''`priority` must be set to `Spot` if `max_bid_price` is specified''
                      else errMsg)
               in if hasEvictionPolicy then
                    (if errMsg \<noteq> []
                     then errMsg @ '', `priority` must be set to `Spot` if `eviction_policy` is specified''
                     else ''`priority` must be set to `Spot` if `eviction_policy` is specified'')
                  else errMsg)
            else errMsg)
     in if errMsg \<noteq> [] then Some (ErrorsNew errMsg) else None)"

subsection \<open>Building the profile on create\<close>

text \<open>
  Lines 271 to 352 of \<^verbatim>\<open>resourceArmKubernetesClusterNodePoolCreate\<close>: the profile
  is filled in field by field, and the checks of the auto-scale fields return the first
  error they meet.
\<close>

definition Create_profile :: "config \<Rightarrow> error + profile" where
  "Create_profile d =
    (let count = node_count d;
         enableAutoScaling = enable_auto_scaling d;
         osType = os_type d;
         t = tags d;
         vmSize = vm_size d;
         scaleSetPriority = priority d;
         profile = \<lparr>
           Count = Some (int32 count),
           VMSize = vmSize,
           OsDiskSizeGB = None,
           VnetSubnetID = None,
           MaxPods = None,
           OsType = osType,
           MaxCount = None,
           MinCount = None,
           EnableAutoScaling = Some enableAutoScaling,
           Type = VirtualMachineScaleSets,
           AvailabilityZones = None,
           EnableNodePublicIP = Some (enable_node_public_ip d),
           ScaleSetPriority = scaleSetPriority,
           ScaleSetEvictionPolicy = [],
           SpotMaxPrice = None,
           Tags = Some (tags_Expand t),
           NodeLabels = None,
           NodeTaints = None \<rparr>;
         availabilityZones = ExpandStringSlice (availability_zones d);
         profile = (if length availabilityZones > 0
                    then profile\<lparr>AvailabilityZones := Some availabilityZones\<rparr> else profile);
         maxPods = int32 (max_pods d);
         profile = (if maxPods > 0 then profile\<lparr>MaxPods := Some maxPods\<rparr> else profile);
         nodeLabels = ExpandMapStringPtrString (node_labels d);
         profile = (if length nodeLabels > 0
                    then profile\<lparr>NodeLabels := Some nodeLabels\<rparr> else profile);
         nodeTaints = ExpandStringSlice (node_taints d);
         profile = (if length nodeTaints > 0
                    then profile\<lparr>NodeTaints := Some nodeTaints\<rparr> else profile);
         osDiskSizeGB = os_disk_size_gb d;
         profile = (if osDiskSizeGB > 0
                    then profile\<lparr>OsDiskSizeGB := Some (int32 osDiskSizeGB)\<rparr> else profile);
         vnetSubnetID = vnet_subnet_id d;
         profile = (if vnetSubnetID \<noteq> []
                    then profile\<lparr>VnetSubnetID := Some vnetSubnetID\<rparr> else profile);
         scaleSetEvictionPolicy = eviction_policy d;
         profile = (if scaleSetEvictionPolicy \<noteq> []
                    then profile\<lparr>ScaleSetEvictionPolicy := scaleSetEvictionPolicy\<rparr> else profile);
         spotPrice = max_bid_price d;
         profile = (if spotPrice \<noteq> 0
                    then profile\<lparr>SpotMaxPrice := Some spotPrice\<rparr> else profile);
         maxCount = max_count d;
         minCount = min_count d
     in if enableAutoScaling then
          (let profile = (if count = 0
                          then profile\<lparr>Count := Some (int32 minCount)\<rparr> else profile)
           in if maxCount > 0 then
                (let profile = profile\<lparr>MaxCount := Some (int32 maxCount)\<rparr>
                 in if minCount > 0 then
                      (let profile = profile\<lparr>MinCount := Some (int32 minCount)\<rparr>
                       in if minCount > maxCount
                          then Inl (Errorf ''`max_count` must be >= `min_count`'' [])
                          else Inr profile)
                    else Inl (Errorf ''`min_count` must be configured when `enable_auto_scaling` is set to `true`'' []))
              else Inl (Errorf ''`max_count` must be configured when `enable_auto_scaling` is set to `true`'' []))
        else if minCount > 0 \<or> maxCount > 0 then
          Inl (Errorf ''`max_count` and `min_count` must be set to `null` when enable_auto_scaling is set to `false`'' [])
        else Inr profile)"

subsection \<open>Patching the profile on update\<close>

text \<open>
  \<^verbatim>\<open>d.HasChange(key)\<close> compares the value of the key in the prior state with its new
  value.
\<close>

definition HasChange :: "resource_data \<Rightarrow> (config \<Rightarrow> 'a) \<Rightarrow> bool" where
  "HasChange d key \<longleftrightarrow> key (old d) \<noteq> key (new d)"

text \<open>
  Lines 407 to 478 of \<^verbatim>\<open>resourceArmKubernetesClusterNodePoolUpdate\<close>: the fetched
  properties are patched with the keys that changed, then the auto-scale fields of the
  patched properties are checked.
\<close>

definition Update_props :: "resource_data \<Rightarrow> profile \<Rightarrow> error + profile" where
  "Update_props d props =
    (let enableAutoScaling = False;
         enableAutoScaling =
           (case EnableAutoScaling props of None \<Rightarrow> enableAutoScaling | Some b \<Rightarrow> b);
         props = (if HasChange d availability_zones
                  then props\<lparr>AvailabilityZones := Some (ExpandStringSlice (availability_zones (new d)))\<rparr>
                  else props);
         enableAutoScaling = (if HasChange d enable_auto_scaling
                              then enable_auto_scaling (new d) else enableAutoScaling);
         props = (if HasChange d enable_auto_scaling
                  then props\<lparr>EnableAutoScaling := Some enableAutoScaling\<rparr> else props);
         props = (if HasChange d enable_node_public_ip
                  then props\<lparr>EnableNodePublicIP := Some (enable_node_public_ip (new d))\<rparr>
                  else props);
         props = (if HasChange d max_count
                  then props\<lparr>MaxCount := Some (int32 (max_count (new d)))\<rparr> else props);
         props = (if HasChange d min_count
                  then props\<lparr>MinCount := Some (int32 (min_count (new d)))\<rparr> else props);
         props = (if HasChange d node_count
                  then props\<lparr>Count := Some (int32 (node_count (new d)))\<rparr> else props);
         props = (if HasChange d tags
                  then props\<lparr>Tags := Some (tags_Expand (tags (new d)))\<rparr> else props);
         maxCount = (0::int);
         maxCount = (case MaxCount props of None \<Rightarrow> maxCount | Some m \<Rightarrow> m);
         minCount = (0::int);
         minCount = (case MinCount props of None \<Rightarrow> minCount | Some m \<Rightarrow> m)
     in if enableAutoScaling then
          (if maxCount = 0 then
             Inl (Errorf ''`max_count` must be configured when `enable_auto_scaling` is set to `true`'' [])
           else if minCount = 0 then
             Inl (Errorf ''`min_count` must be configured when `enable_auto_scaling` is set to `true`'' [])
           else if minCount > maxCount then
             Inl (Errorf ''`max_count` must be >= `min_count`'' [])
           else Inr props)
        else
          (if minCount > 0 \<or> maxCount > 0 then
             Inl (Errorf ''`max_count` and `min_count` must be set to `nil` when enable_auto_scaling is set to `false`'' [])
           else Inr (props\<lparr>MaxCount := None, MinCount := None\<rparr>)))"

text \<open>
  The auto-scale triple that the checks of the update see, written out: the declared value
  of a key that changed, the fetched value of a key that did not.
\<close>

definition merged_enabled :: "resource_data \<Rightarrow> profile \<Rightarrow> bool" where
  "merged_enabled d props =
     (if HasChange d enable_auto_scaling then enable_auto_scaling (new d)
      else (case EnableAutoScaling props of None \<Rightarrow> False | Some b \<Rightarrow> b))"

definition merged_max :: "resource_data \<Rightarrow> profile \<Rightarrow> int" where
  "merged_max d props =
     (if HasChange d max_count then int32 (max_count (new d))
      else (case MaxCount props of None \<Rightarrow> 0 | Some m \<Rightarrow> m))"

definition merged_min :: "resource_data \<Rightarrow> profile \<Rightarrow> int" where
  "merged_min d props =
     (if HasChange d min_count then int32 (min_count (new d))
      else (case MinCount props of None \<Rightarrow> 0 | Some m \<Rightarrow> m))"

subsection \<open>Writing the fetched pool into the state\<close>

text \<open>
  Lines 530 to 587 of \<^verbatim>\<open>resourceArmKubernetesClusterNodePoolRead\<close>. A
  \<^verbatim>\<open>d.Set\<close> of a nil pointer writes the zero value of the key, and the result is
  the configuration that \<^verbatim>\<open>d.Get\<close> reads afterwards. The last line reads
  \<^verbatim>\<open>resp.Tags\<close> through the embedded pointer to the properties, which panics when
  that pointer is nil.
\<close>

definition Read_set ::
  "string \<Rightarrow> string option \<Rightarrow> agent_pool \<Rightarrow> config \<Rightarrow> config \<times> error option" where
  "Read_set id_Name cluster_id resp d =
    (let d = d\<lparr>name := id_Name\<rparr>;
         d = d\<lparr>kubernetes_cluster_id := (case cluster_id of None \<Rightarrow> [] | Some s \<Rightarrow> s)\<rparr>
     in case ManagedClusterAgentPoolProfileProperties resp of
          None \<Rightarrow> (d, Some NilDereference)
        | Some props \<Rightarrow>
           (let d = d\<lparr>availability_zones := FlattenStringSlice (AvailabilityZones props)\<rparr>;
                d = d\<lparr>enable_auto_scaling :=
                         (case EnableAutoScaling props of None \<Rightarrow> False | Some b \<Rightarrow> b)\<rparr>;
                d = d\<lparr>enable_node_public_ip :=
                         (case EnableNodePublicIP props of None \<Rightarrow> False | Some b \<Rightarrow> b)\<rparr>;
                maxCount = (case MaxCount props of None \<Rightarrow> 0 | Some m \<Rightarrow> m);
                d = d\<lparr>max_count := maxCount\<rparr>;
                maxPods = (case MaxPods props of None \<Rightarrow> 0 | Some m \<Rightarrow> m);
                d = d\<lparr>max_pods := maxPods\<rparr>;
                minCount = (case MinCount props of None \<Rightarrow> 0 | Some m \<Rightarrow> m);
                d = d\<lparr>min_count := minCount\<rparr>;
                count = (case Count props of None \<Rightarrow> 0 | Some m \<Rightarrow> m);
                d = d\<lparr>node_count := count\<rparr>;
                d = d\<lparr>node_labels := Set_map_ptr (NodeLabels props)\<rparr>;
                d = d\<lparr>node_taints := FlattenStringSlice (NodeTaints props)\<rparr>;
                osDiskSizeGB = (case OsDiskSizeGB props of None \<Rightarrow> 0 | Some m \<Rightarrow> m);
                d = d\<lparr>os_disk_size_gb := osDiskSizeGB\<rparr>;
                d = d\<lparr>os_type := OsType props\<rparr>;
                d = d\<lparr>vnet_subnet_id := (case VnetSubnetID props of None \<Rightarrow> [] | Some s \<Rightarrow> s)\<rparr>;
                d = d\<lparr>vm_size := VMSize props\<rparr>;
                d = d\<lparr>priority := ScaleSetPriority props\<rparr>;
                d = d\<lparr>eviction_policy := ScaleSetEvictionPolicy props\<rparr>;
                d = d\<lparr>max_bid_price := (case SpotMaxPrice props of None \<Rightarrow> 0 | Some x \<Rightarrow> x)\<rparr>
            in (d\<lparr>tags := Set_map (tags_Flatten (Tags props))\<rparr>, None)))"

subsection \<open>The remote API and the identifier parsers\<close>

text \<open>
  The calls the operations issue, with their arguments. A history is the list of the
  calls issued so far, the latest last.
\<close>

datatype call =
    ClustersGet string string
  | PoolsGet string string string
  | PoolsCreateOrUpdate string string string agent_pool
  | WaitForCompletionRef
  | PoolsDelete string string string

fun is_mutating :: "call \<Rightarrow> bool" where
  "is_mutating (PoolsCreateOrUpdate rg cn n p) = True"
| "is_mutating (PoolsDelete rg cn n) = True"
| "is_mutating c = False"

definition mutations :: "call list \<Rightarrow> call list" where
  "mutations h = filter is_mutating h"

text \<open>
  What a \<^verbatim>\<open>Get\<close> returns: the value, whether the status of the response is
  Not Found (\<^verbatim>\<open>utils.ResponseWasNotFound\<close>), and the error, if any.
\<close>

record 'a get_result =
  result :: 'a
  was_not_found :: bool
  err :: "string option"

text \<open>
  The remote API behind the two clients is a parameter: every answer is a function of
  the history up to and including the call it answers.
\<close>

record remote =
  clusters_Get :: "call list \<Rightarrow> managed_cluster get_result"
  pools_Get :: "call list \<Rightarrow> agent_pool get_result"
  pools_CreateOrUpdate :: "call list \<Rightarrow> string option"
  future_Wait :: "call list \<Rightarrow> string option"
  pools_Delete :: "call list \<Rightarrow> string option"

text \<open>
  The identifier parsers of package \<^verbatim>\<open>parse\<close> are parameters too: each returns an
  error or the parts of the identifier.
\<close>

record cluster_id =
  cid_ResourceGroup :: string
  cid_Name :: string

record node_pool_id =
  ResourceGroup :: string
  ClusterName :: string
  Name :: string

record parsers =
  KubernetesClusterID :: "string \<Rightarrow> string + cluster_id"
  KubernetesNodePoolID :: "string \<Rightarrow> string + node_pool_id"

subsection \<open>Read\<close>

text \<open>Lines 496 to 588. The operation continues the history it is given.\<close>

definition resourceArmKubernetesClusterNodePoolRead ::
  "parsers \<Rightarrow> remote \<Rightarrow> call list \<Rightarrow> resource_data \<Rightarrow> call list \<times> resource_data \<times> error option" where
  "resourceArmKubernetesClusterNodePoolRead ps r h d =
    (case KubernetesNodePoolID ps (Id d) of
       Inl e \<Rightarrow> (h, d, Some (External e))
     | Inr id0 \<Rightarrow>
        (let h = h @ [ClustersGet (ResourceGroup id0) (ClusterName id0)];
             cluster = clusters_Get r h
         in case err cluster of
              Some e \<Rightarrow>
                (if was_not_found cluster then (h, d\<lparr>Id := []\<rparr>, None)
                 else (h, d, Some (Errorf ''retrieving Managed Kubernetes Cluster %q (Resource Group %q): %+v''
                                     [ClusterName id0, ResourceGroup id0, e])))
            | None \<Rightarrow>
                (let h = h @ [PoolsGet (ResourceGroup id0) (ClusterName id0) (Name id0)];
                     resp = pools_Get r h
                 in case err resp of
                      Some e \<Rightarrow>
                        (if was_not_found resp then (h, d\<lparr>Id := []\<rparr>, None)
                         else (h, d, Some (Errorf ''retrieving Node Pool %q (Managed Kubernetes Cluster %q / Resource Group %q): %+v''
                                             [Name id0, ClusterName id0, ResourceGroup id0, e])))
                    | None \<Rightarrow>
                        (case Read_set (Name id0) (cluster_ID (result cluster)) (result resp) (new d) of
                           (c, e) \<Rightarrow> (h, d\<lparr>new := c\<rparr>, e)))))"

subsection \<open>Create\<close>

text \<open>Lines 242 to 253: the loop over the agent pool profiles of the cluster.\<close>

fun any_VirtualMachineScaleSets :: "string list \<Rightarrow> bool" where
  "any_VirtualMachineScaleSets [] = False"
| "any_VirtualMachineScaleSets (p # pools) =
     (if p = VirtualMachineScaleSets then True else any_VirtualMachineScaleSets pools)"

definition defaultPoolIsVMSS :: "managed_cluster \<Rightarrow> bool" where
  "defaultPoolIsVMSS cluster =
     (case ManagedClusterProperties cluster of
        None \<Rightarrow> False
      | Some props \<Rightarrow>
         (case AgentPoolProfiles props of
            None \<Rightarrow> False
          | Some pools \<Rightarrow> any_VirtualMachineScaleSets pools))"

text \<open>Lines 258 to 269: the check that the pool does not exist yet.\<close>

definition Create_check_existing ::
  "remote \<Rightarrow> call list \<Rightarrow> resource_data \<Rightarrow> string \<Rightarrow> string \<Rightarrow> string \<Rightarrow> call list \<times> error option" where
  "Create_check_existing r h d resourceGroup clusterName name0 =
    (if IsNewResource d then
       (let h = h @ [PoolsGet resourceGroup clusterName name0];
            existing = pools_Get r h
        in case (if was_not_found existing then None else err existing) of
             Some e \<Rightarrow>
               (h, Some (Errorf ''checking for presence of existing Agent Pool %q (Kubernetes Cluster %q / Resource Group %q): %s''
                           [name0, clusterName, resourceGroup, e]))
           | None \<Rightarrow>
               (case pool_ID (result existing) of
                  None \<Rightarrow> (h, None)
                | Some i \<Rightarrow>
                    (if i \<noteq> []
                     then (h, Some (ImportAsExistsError ''azurerm_kubernetes_cluster_node_pool'' i))
                     else (h, None))))
     else (h, None))"

text \<open>Lines 354 to 379: the submission, the wait, the re-read and the final Read.\<close>

definition Create_submit ::
  "parsers \<Rightarrow> remote \<Rightarrow> call list \<Rightarrow> resource_data \<Rightarrow> string \<Rightarrow> string \<Rightarrow> string \<Rightarrow> profile
     \<Rightarrow> call list \<times> resource_data \<times> error option" where
  "Create_submit ps r h d resourceGroup clusterName name0 profile =
    (let parameters = \<lparr>pool_ID = None, pool_Name = Some name0,
                        ManagedClusterAgentPoolProfileProperties = Some profile\<rparr>;
         h = h @ [PoolsCreateOrUpdate resourceGroup clusterName name0 parameters]
     in case pools_CreateOrUpdate r h of
          Some e \<Rightarrow>
            (h, d, Some (Errorf ''creating/updating Managed Kubernetes Cluster Node Pool %q (Resource Group %q): %+v''
                           [name0, resourceGroup, e]))
        | None \<Rightarrow>
            (let h = h @ [WaitForCompletionRef]
             in case future_Wait r h of
                  Some e \<Rightarrow>
                    (h, d, Some (Errorf ''waiting for completion of Managed Kubernetes Cluster Node Pool %q (Resource Group %q): %+v''
                                   [name0, resourceGroup, e]))
                | None \<Rightarrow>
                    (let h = h @ [PoolsGet resourceGroup clusterName name0];
                         read = pools_Get r h
                     in case err read of
                          Some e \<Rightarrow>
                            (h, d, Some (Errorf ''retrieving Managed Kubernetes Cluster Node Pool %q (Resource Group %q): %+v''
                                           [name0, resourceGroup, e]))
                        | None \<Rightarrow>
                            (case pool_ID (result read) of
                               None \<Rightarrow>
                                 (h, d, Some (Errorf ''Cannot read ID for Managed Kubernetes Cluster Node Pool %q (Resource Group %q)''
                                                [name0, resourceGroup]))
                             | Some i \<Rightarrow>
                                 resourceArmKubernetesClusterNodePoolRead ps r h (d\<lparr>Id := i\<rparr>)))))"

text \<open>Lines 217 to 380.\<close>

definition resourceArmKubernetesClusterNodePoolCreate ::
  "parsers \<Rightarrow> remote \<Rightarrow> resource_data \<Rightarrow> call list \<times> resource_data \<times> error option" where
  "resourceArmKubernetesClusterNodePoolCreate ps r d =
    (case KubernetesClusterID ps (kubernetes_cluster_id (new d)) of
       Inl e \<Rightarrow> ([], d, Some (External e))
     | Inr kubernetesClusterId \<Rightarrow>
        (let resourceGroup = cid_ResourceGroup kubernetesClusterId;
             clusterName = cid_Name kubernetesClusterId;
             name0 = name (new d);
             h = [ClustersGet resourceGroup clusterName];
             cluster = clusters_Get r h
         in case err cluster of
              Some e \<Rightarrow>
                (if was_not_found cluster
                 then (h, d, Some (Errorf ''Kubernetes Cluster %q was not found in Resource Group %q!''
                                     [clusterName, resourceGroup]))
                 else (h, d, Some (Errorf ''retrieving existing Kubernetes Cluster %q (Resource Group %q): %+v''
                                     [clusterName, resourceGroup, e])))
            | None \<Rightarrow>
                (if \<not> defaultPoolIsVMSS (result cluster)
                 then (h, d, Some (Errorf ''The Default Node Pool for Kubernetes Cluster %q (Resource Group %q) must be a VirtualMachineScaleSet to attach multiple node pools!''
                                     [clusterName, resourceGroup]))
                 else
                   (case Create_check_existing r h d resourceGroup clusterName name0 of
                      (h, Some e) \<Rightarrow> (h, d, Some e)
                    | (h, None) \<Rightarrow>
                        (case Create_profile (new d) of
                           Inl e \<Rightarrow> (h, d, Some e)
                         | Inr profile \<Rightarrow>
                             Create_submit ps r h d resourceGroup clusterName name0 profile)))))"

subsection \<open>Update\<close>

text \<open>Lines 382 to 494.\<close>

definition resourceArmKubernetesClusterNodePoolUpdate ::
  "parsers \<Rightarrow> remote \<Rightarrow> resource_data \<Rightarrow> call list \<times> resource_data \<times> error option" where
  "resourceArmKubernetesClusterNodePoolUpdate ps r d =
    (case KubernetesNodePoolID ps (Id d) of
       Inl e \<Rightarrow> ([], d, Some (External e))
     | Inr id0 \<Rightarrow>
        (let d = d\<lparr>Partial := True\<rparr>;
             h = [PoolsGet (ResourceGroup id0) (ClusterName id0) (Name id0)];
             existing = pools_Get r h
         in case err existing of
              Some e \<Rightarrow>
                (if was_not_found existing
                 then (h, d, Some (Errorf ''[DEBUG] Node Pool %q was not found in Managed Kubernetes Cluster %q / Resource Group %q!''
                                     [Name id0, ClusterName id0, ResourceGroup id0]))
                 else (h, d, Some (Errorf ''retrieving Node Pool %q (Managed Kubernetes Cluster %q / Resource Group %q): %+v''
                                     [Name id0, ClusterName id0, ResourceGroup id0, e])))
            | None \<Rightarrow>
                (case ManagedClusterAgentPoolProfileProperties (result existing) of
                   None \<Rightarrow>
                     (h, d, Some (Errorf ''retrieving Node Pool %q (Managed Kubernetes Cluster %q / Resource Group %q): `properties` was nil''
                                    [Name id0, ClusterName id0, ResourceGroup id0]))
                 | Some props \<Rightarrow>
                     (case Update_props d props of
                        Inl e \<Rightarrow> (h, d, Some e)
                      | Inr props \<Rightarrow>
                          (let existing = (result existing)\<lparr>ManagedClusterAgentPoolProfileProperties := Some props\<rparr>;
                               h = h @ [PoolsCreateOrUpdate (ResourceGroup id0) (ClusterName id0) (Name id0) existing]
                           in case pools_CreateOrUpdate r h of
                                Some e \<Rightarrow>
                                  (h, d, Some (Errorf ''updating Node Pool %q (Kubernetes Cluster %q / Resource Group %q): %+v''
                                                 [Name id0, ClusterName id0, ResourceGroup id0, e]))
                              | None \<Rightarrow>
                                  (let h = h @ [WaitForCompletionRef]
                                   in case future_Wait r h of
                                        Some e \<Rightarrow>
                                          (h, d, Some (Errorf ''waiting for update of Node Pool %q (Kubernetes Cluster %q / Resource Group %q): %+v''
                                                         [Name id0, ClusterName id0, ResourceGroup id0, e]))
                                      | None \<Rightarrow>
                                          resourceArmKubernetesClusterNodePoolRead ps r h (d\<lparr>Partial := False\<rparr>)))))))"

subsection \<open>Delete\<close>

text \<open>Lines 590 to 610.\<close>

definition resourceArmKubernetesClusterNodePoolDelete ::
  "parsers \<Rightarrow> remote \<Rightarrow> resource_data \<Rightarrow> call list \<times> resource_data \<times> error option" where
  "resourceArmKubernetesClusterNodePoolDelete ps r d =
    (case KubernetesNodePoolID ps (Id d) of
       Inl e \<Rightarrow> ([], d, Some (External e))
     | Inr id0 \<Rightarrow>
        (let h = [PoolsDelete (ResourceGroup id0) (ClusterName id0) (Name id0)]
         in case pools_Delete r h of
              Some e \<Rightarrow>
                (h, d, Some (Errorf ''deleting Node Pool %q (Managed Kubernetes Cluster %q / Resource Group %q): %+v''
                               [Name id0, ClusterName id0, ResourceGroup id0, e]))
            | None \<Rightarrow>
                (let h = h @ [WaitForCompletionRef]
                 in case future_Wait r h of
                      Some e \<Rightarrow>
                        (h, d, Some (Errorf ''waiting for the deletion of Node Pool %q (Managed Kubernetes Cluster %q / Resource Group %q): %+v''
                                       [Name id0, ClusterName id0, ResourceGroup id0, e]))
                    | None \<Rightarrow> (h, d, None))))"

section \<open>Example inputs\<close>

text \<open>
  A declared configuration with the defaults of the schema: three nodes, no auto-scaling,
  priority Regular.
\<close>

definition pool1 :: config where
  "pool1 = \<lparr>name = ''pool1'', kubernetes_cluster_id = ''cluster1'', node_count = 3,
     tags = [], vm_size = ''Standard_D2'', availability_zones = [],
     enable_auto_scaling = False, enable_node_public_ip = False, max_count = 0,
     max_pods = 0, min_count = 0, node_labels = [], node_taints = [],
     os_disk_size_gb = 0, os_type = Linux, vnet_subnet_id = [], priority = Regular,
     eviction_policy = [], max_bid_price = 0\<rparr>"

text \<open>The same pool with auto-scaling from 2 to 5 nodes and no declared node count.\<close>

definition pool_autoscaled :: config where
  "pool_autoscaled = pool1\<lparr>enable_auto_scaling := True, node_count := 0, min_count := 2, max_count := 5\<rparr>"

text \<open>A Spot pool with tags, zones and a subnet.\<close>

definition spot_pool :: config where
  "spot_pool = pool1\<lparr>priority := Spot, eviction_policy := Delete, max_bid_price := 1 / 2,
     tags := [(''env'', ''test'')], availability_zones := [''1'', ''2''],
     vnet_subnet_id := ''subnet1'', max_pods := 30, os_disk_size_gb := 64,
     node_labels := [(''tier'', ''batch'')], node_taints := [''spot=true:NoSchedule'']\<rparr>"

text \<open>The profile that Create builds for the auto-scaled pool.\<close>

definition autoscaled_profile :: profile where
  "autoscaled_profile = \<lparr>Count = Some 2, VMSize = ''Standard_D2'', OsDiskSizeGB = None,
     VnetSubnetID = None, MaxPods = None, OsType = Linux, MaxCount = Some 5,
     MinCount = Some 2, EnableAutoScaling = Some True, Type = VirtualMachineScaleSets,
     AvailabilityZones = None, EnableNodePublicIP = Some False, ScaleSetPriority = Regular,
     ScaleSetEvictionPolicy = [], SpotMaxPrice = None, Tags = Some [], NodeLabels = None,
     NodeTaints = None\<rparr>"

text \<open>Parsers that accept every identifier but the empty one.\<close>

definition parsers1 :: parsers where
  "parsers1 = \<lparr>
     KubernetesClusterID = (\<lambda>s. if s = [] then Inl ''empty identifier''
                                else Inr \<lparr>cid_ResourceGroup = ''rg1'', cid_Name = s\<rparr>),
     KubernetesNodePoolID = (\<lambda>s. if s = [] then Inl ''empty identifier''
                                else Inr \<lparr>ResourceGroup = ''rg1'', ClusterName = ''cluster1'', Name = s\<rparr>) \<rparr>"

text \<open>A remote API that gives the same answers whatever the history is, and accepts every mutation.\<close>

definition fixed_remote :: "managed_cluster get_result \<Rightarrow> agent_pool get_result \<Rightarrow> remote" where
  "fixed_remote c p = \<lparr>
     clusters_Get = (\<lambda>h. c),
     pools_Get = (\<lambda>h. p),
     pools_CreateOrUpdate = (\<lambda>h. None),
     future_Wait = (\<lambda>h. None),
     pools_Delete = (\<lambda>h. None) \<rparr>"

text \<open>The three kinds of answer to a \<^verbatim>\<open>Get\<close>: success, Not Found, another failure.\<close>

definition got :: "'a \<Rightarrow> 'a get_result" where
  "got x = \<lparr>result = x, was_not_found = False, err = None\<rparr>"

definition not_found :: "'a \<Rightarrow> 'a get_result" where
  "not_found x = \<lparr>result = x, was_not_found = True, err = Some ''404 Not Found''\<rparr>"

definition failed :: "'a \<Rightarrow> 'a get_result" where
  "failed x = \<lparr>result = x, was_not_found = False, err = Some ''500 Internal Server Error''\<rparr>"

text \<open>The zero values that come with a failed \<^verbatim>\<open>Get\<close>.\<close>

definition no_cluster :: managed_cluster where
  "no_cluster = \<lparr>cluster_ID = None, ManagedClusterProperties = None\<rparr>"

definition no_pool :: agent_pool where
  "no_pool = \<lparr>pool_ID = None, pool_Name = None, ManagedClusterAgentPoolProfileProperties = None\<rparr>"

text \<open>A cluster whose default pool is a scale set, and one whose default pool is not.\<close>

definition cluster_vmss :: managed_cluster where
  "cluster_vmss = \<lparr>cluster_ID = Some ''cluster1'',
     ManagedClusterProperties = Some \<lparr>AgentPoolProfiles = Some [VirtualMachineScaleSets]\<rparr>\<rparr>"

definition cluster_avset :: managed_cluster where
  "cluster_avset = \<lparr>cluster_ID = Some ''cluster1'',
     ManagedClusterProperties = Some \<lparr>AgentPoolProfiles = Some [''AvailabilitySet'']\<rparr>\<rparr>"

text \<open>A pool as the remote API returns it: auto-scaled from 1 to 5 nodes.\<close>

definition remote_profile :: profile where
  "remote_profile = \<lparr>Count = Some 3, VMSize = ''Standard_D2'', OsDiskSizeGB = Some 128,
     VnetSubnetID = None, MaxPods = Some 110, OsType = Linux, MaxCount = Some 5,
     MinCount = Some 1, EnableAutoScaling = Some True, Type = VirtualMachineScaleSets,
     AvailabilityZones = None, EnableNodePublicIP = Some False, ScaleSetPriority = Regular,
     ScaleSetEvictionPolicy = [], SpotMaxPrice = None, Tags = Some [], NodeLabels = None,
     NodeTaints = None\<rparr>"

definition remote_pool :: agent_pool where
  "remote_pool = \<lparr>pool_ID = Some ''/pools/pool1'', pool_Name = Some ''pool1'',
     ManagedClusterAgentPoolProfileProperties = Some remote_profile\<rparr>"

definition remote1 :: remote where
  "remote1 = fixed_remote (got cluster_vmss) (got remote_pool)"

text \<open>The declared configuration of that pool.\<close>

definition pool_scaled :: config where
  "pool_scaled = pool1\<lparr>enable_auto_scaling := True, min_count := 1, max_count := 5\<rparr>"

text \<open>Resource data: a new resource, and four updates of an existing one.\<close>

definition data1 :: resource_data where
  "data1 = \<lparr>Id = ''pool1'', IsNewResource = True, Partial = False, old = pool1, new = pool1\<rparr>"

definition data_max_added :: resource_data where
  "data_max_added = \<lparr>Id = ''pool1'', IsNewResource = False, Partial = False,
     old = pool1, new = pool1\<lparr>max_count := 4\<rparr>\<rparr>"

definition data_flag_on :: resource_data where
  "data_flag_on = \<lparr>Id = ''pool1'', IsNewResource = False, Partial = False,
     old = pool1, new = pool1\<lparr>enable_auto_scaling := True\<rparr>\<rparr>"

definition data_flag_off_stale :: resource_data where
  "data_flag_off_stale = \<lparr>Id = ''pool1'', IsNewResource = False, Partial = False,
     old = pool_scaled, new = pool_scaled\<lparr>enable_auto_scaling := False\<rparr>\<rparr>"

definition data_flag_off_cleared :: resource_data where
  "data_flag_off_cleared = \<lparr>Id = ''pool1'', IsNewResource = False, Partial = False,
     old = pool_scaled, new = pool1\<rparr>"

text \<open>The same pool as the remote API returns it once auto-scaling is off.\<close>

definition remote_profile_fixed :: profile where
  "remote_profile_fixed = remote_profile\<lparr>EnableAutoScaling := Some False, MaxCount := None, MinCount := None\<rparr>"

definition remote_pool_fixed :: agent_pool where
  "remote_pool_fixed = remote_pool\<lparr>ManagedClusterAgentPoolProfileProperties := Some remote_profile_fixed\<rparr>"

definition remote2 :: remote where
  "remote2 = fixed_remote (got cluster_vmss) (got remote_pool_fixed)"

text \<open>An update that declares a minimum count and leaves auto-scaling off.\<close>

definition data_min_added :: resource_data where
  "data_min_added = \<lparr>Id = ''pool1'', IsNewResource = False, Partial = False,
     old = pool1, new = pool1\<lparr>min_count := 2\<rparr>\<rparr>"

text \<open>Auto-scaling declared without bounds, and with equal bounds.\<close>

definition pool_unbounded :: config where
  "pool_unbounded = pool1\<lparr>enable_auto_scaling := True\<rparr>"

definition pool_equal_bounds :: config where
  "pool_equal_bounds = pool1\<lparr>enable_auto_scaling := True, min_count := 2, max_count := 2\<rparr>"

section \<open>Properties\<close>

subsection \<open>Auxiliary facts\<close>

lemma int32_id: "- (2 ^ 31) \<le> x \<Longrightarrow> x < 2 ^ 31 \<Longrightarrow> int32 x = x"
  by (simp add: int32_def)

lemma schema_valid_bounds:
  assumes "schema_valid c"
  shows "0 \<le> node_count c" "node_count c \<le> 100" "0 \<le> max_count c" "max_count c \<le> 100"
    "0 \<le> min_count c" "min_count c \<le> 100" "0 \<le> os_disk_size_gb c"
proof -
  from assms have n: "node_count c = 0 \<or> (1 \<le> node_count c \<and> node_count c \<le> 100)"
    and x: "max_count c = 0 \<or> (1 \<le> max_count c \<and> max_count c \<le> 100)"
    and m: "min_count c = 0 \<or> (1 \<le> min_count c \<and> min_count c \<le> 100)"
    and o: "os_disk_size_gb c = 0 \<or> 1 \<le> os_disk_size_gb c"
    by (simp_all add: schema_valid_def)
  from n show "0 \<le> node_count c" "node_count c \<le> 100" by linarith+
  from x show "0 \<le> max_count c" "max_count c \<le> 100" by linarith+
  from m show "0 \<le> min_count c" "min_count c \<le> 100" by linarith+
  from o show "0 \<le> os_disk_size_gb c" by linarith
qed

lemma Create_profile_ok_iff:
  "(\<exists>p. Create_profile d = Inr p) \<longleftrightarrow>
     (if enable_auto_scaling d
      then max_count d > 0 \<and> min_count d > 0 \<and> min_count d \<le> max_count d
      else \<not> (min_count d > 0 \<or> max_count d > 0))"
  by (simp add: Create_profile_def Let_def)

lemma if_update_profile:
  "(if c then p\<lparr>AvailabilityZones := v1\<rparr> else p) = AvailabilityZones_update (\<lambda>x. if c then v1 else x) p"
  "(if c then p\<lparr>MaxPods := v2\<rparr> else p) = MaxPods_update (\<lambda>x. if c then v2 else x) p"
  "(if c then p\<lparr>NodeLabels := v3\<rparr> else p) = NodeLabels_update (\<lambda>x. if c then v3 else x) p"
  "(if c then p\<lparr>NodeTaints := v4\<rparr> else p) = NodeTaints_update (\<lambda>x. if c then v4 else x) p"
  "(if c then p\<lparr>OsDiskSizeGB := v5\<rparr> else p) = OsDiskSizeGB_update (\<lambda>x. if c then v5 else x) p"
  "(if c then p\<lparr>VnetSubnetID := v6\<rparr> else p) = VnetSubnetID_update (\<lambda>x. if c then v6 else x) p"
  "(if c then p\<lparr>ScaleSetEvictionPolicy := v7\<rparr> else p) = ScaleSetEvictionPolicy_update (\<lambda>x. if c then v7 else x) p"
  "(if c then p\<lparr>SpotMaxPrice := v8\<rparr> else p) = SpotMaxPrice_update (\<lambda>x. if c then v8 else x) p"
  "(if c then p\<lparr>Count := v9\<rparr> else p) = Count_update (\<lambda>x. if c then v9 else x) p"
  by (cases c; simp)+

lemma Create_profile_eq:
  "Create_profile d =
    (if (if enable_auto_scaling d
         then max_count d > 0 \<and> min_count d > 0 \<and> min_count d \<le> max_count d
         else \<not> (min_count d > 0 \<or> max_count d > 0))
     then Inr \<lparr>
           Count = Some (if enable_auto_scaling d \<and> node_count d = 0
                         then int32 (min_count d) else int32 (node_count d)),
           VMSize = vm_size d,
           OsDiskSizeGB = (if os_disk_size_gb d > 0 then Some (int32 (os_disk_size_gb d)) else None),
           VnetSubnetID = (if vnet_subnet_id d \<noteq> [] then Some (vnet_subnet_id d) else None),
           MaxPods = (if int32 (max_pods d) > 0 then Some (int32 (max_pods d)) else None),
           OsType = os_type d,
           MaxCount = (if enable_auto_scaling d then Some (int32 (max_count d)) else None),
           MinCount = (if enable_auto_scaling d then Some (int32 (min_count d)) else None),
           EnableAutoScaling = Some (enable_auto_scaling d),
           Type = VirtualMachineScaleSets,
           AvailabilityZones = (if availability_zones d \<noteq> [] then Some (availability_zones d) else None),
           EnableNodePublicIP = Some (enable_node_public_ip d),
           ScaleSetPriority = priority d,
           ScaleSetEvictionPolicy = eviction_policy d,
           SpotMaxPrice = (if max_bid_price d \<noteq> 0 then Some (max_bid_price d) else None),
           Tags = Some (tags_Expand (tags d)),
           NodeLabels = (if node_labels d \<noteq> [] then Some (ExpandMapStringPtrString (node_labels d)) else None),
           NodeTaints = (if node_taints d \<noteq> [] then Some (node_taints d) else None) \<rparr>
     else Inl (Errorf
       (if enable_auto_scaling d then
          (if max_count d > 0 then
             (if min_count d > 0 then ''`max_count` must be >= `min_count`''
              else ''`min_count` must be configured when `enable_auto_scaling` is set to `true`'')
           else ''`max_count` must be configured when `enable_auto_scaling` is set to `true`'')
        else ''`max_count` and `min_count` must be set to `null` when enable_auto_scaling is set to `false`'') []))"
proof -
  have ev: "(if eviction_policy d = [] then [] else eviction_policy d) = eviction_policy d"
    "(if eviction_policy d \<noteq> [] then eviction_policy d else []) = eviction_policy d"
    by simp_all
  have len: "ExpandMapStringPtrString (node_labels d) \<noteq> [] \<longleftrightarrow> node_labels d \<noteq> []"
    by (simp add: ExpandMapStringPtrString_def)
  show ?thesis
    by (cases "enable_auto_scaling d"; cases "max_count d > 0"; cases "min_count d > 0";
        cases "min_count d > max_count d"; cases "node_count d = 0";
        simp add: Create_profile_def Let_def ExpandStringSlice_def if_update_profile
                  len ev split del: if_split)
qed


lemma flatten_entries_Some: "flatten_entries (map (\<lambda>(k, v). (k, Some v)) xs) = xs"
  by (induction xs) auto

lemma deref_entries_Some:
  "map (\<lambda>(k, v). (k, case v of None \<Rightarrow> [] | Some s \<Rightarrow> s)) (map (\<lambda>(k, v). (k, Some v)) xs) = xs"
  by (induction xs) auto

lemma tags_roundtrip: "tags_Flatten (Some (tags_Expand t)) = t"
  by (simp add: tags_Flatten_def tags_Expand_def flatten_entries_Some)

lemma Create_profile_Inr:
  assumes "Create_profile d = Inr p"
  shows "p = \<lparr>
           Count = Some (if enable_auto_scaling d \<and> node_count d = 0
                         then int32 (min_count d) else int32 (node_count d)),
           VMSize = vm_size d,
           OsDiskSizeGB = (if os_disk_size_gb d > 0 then Some (int32 (os_disk_size_gb d)) else None),
           VnetSubnetID = (if vnet_subnet_id d \<noteq> [] then Some (vnet_subnet_id d) else None),
           MaxPods = (if int32 (max_pods d) > 0 then Some (int32 (max_pods d)) else None),
           OsType = os_type d,
           MaxCount = (if enable_auto_scaling d then Some (int32 (max_count d)) else None),
           MinCount = (if enable_auto_scaling d then Some (int32 (min_count d)) else None),
           EnableAutoScaling = Some (enable_auto_scaling d),
           Type = VirtualMachineScaleSets,
           AvailabilityZones = (if availability_zones d \<noteq> [] then Some (availability_zones d) else None),
           EnableNodePublicIP = Some (enable_node_public_ip d),
           ScaleSetPriority = priority d,
           ScaleSetEvictionPolicy = eviction_policy d,
           SpotMaxPrice = (if max_bid_price d \<noteq> 0 then Some (max_bid_price d) else None),
           Tags = Some (tags_Expand (tags d)),
           NodeLabels = (if node_labels d \<noteq> [] then Some (ExpandMapStringPtrString (node_labels d)) else None),
           NodeTaints = (if node_taints d \<noteq> [] then Some (node_taints d) else None) \<rparr>"
proof (cases "if enable_auto_scaling d
         then max_count d > 0 \<and> min_count d > 0 \<and> min_count d \<le> max_count d
         else \<not> (min_count d > 0 \<or> max_count d > 0)")
  case True
  from assms show ?thesis
    unfolding Create_profile_eq if_P [OF True] by (simp only: sum.inject)
next
  case False
  from assms show ?thesis
    unfolding Create_profile_eq if_not_P [OF False] by (simp only: sum.distinct)
qed

lemma if_update_props:
  "(if c then p\<lparr>AvailabilityZones := v1\<rparr> else p) = AvailabilityZones_update (\<lambda>x. if c then v1 else x) p"
  "(if c then p\<lparr>EnableAutoScaling := v2\<rparr> else p) = EnableAutoScaling_update (\<lambda>x. if c then v2 else x) p"
  "(if c then p\<lparr>EnableNodePublicIP := v3\<rparr> else p) = EnableNodePublicIP_update (\<lambda>x. if c then v3 else x) p"
  "(if c then p\<lparr>MaxCount := v4\<rparr> else p) = MaxCount_update (\<lambda>x. if c then v4 else x) p"
  "(if c then p\<lparr>MinCount := v5\<rparr> else p) = MinCount_update (\<lambda>x. if c then v5 else x) p"
  "(if c then p\<lparr>Count := v6\<rparr> else p) = Count_update (\<lambda>x. if c then v6 else x) p"
  "(if c then p\<lparr>Tags := v7\<rparr> else p) = Tags_update (\<lambda>x. if c then v7 else x) p"
  by (cases c; simp)+

lemma Update_props_enabled:
  assumes "merged_enabled d props"
  shows "(merged_max d props = 0 \<longrightarrow> Update_props d props =
            Inl (Errorf ''`max_count` must be configured when `enable_auto_scaling` is set to `true`'' [])) \<and>
         (merged_max d props \<noteq> 0 \<and> merged_min d props = 0 \<longrightarrow> Update_props d props =
            Inl (Errorf ''`min_count` must be configured when `enable_auto_scaling` is set to `true`'' [])) \<and>
         (merged_max d props \<noteq> 0 \<and> merged_min d props \<noteq> 0 \<and> merged_min d props > merged_max d props \<longrightarrow>
            Update_props d props = Inl (Errorf ''`max_count` must be >= `min_count`'' [])) \<and>
         (merged_max d props \<noteq> 0 \<and> merged_min d props \<noteq> 0 \<and> merged_min d props \<le> merged_max d props \<longrightarrow>
            (\<exists>p. Update_props d props = Inr p))"
  using assms unfolding Update_props_def Let_def merged_enabled_def merged_max_def merged_min_def
    if_update_props
  by (auto split: option.splits if_splits)

lemma Update_props_disabled:
  assumes "\<not> merged_enabled d props"
  shows "(merged_min d props > 0 \<or> merged_max d props > 0 \<longrightarrow> Update_props d props =
            Inl (Errorf ''`max_count` and `min_count` must be set to `nil` when enable_auto_scaling is set to `false`'' [])) \<and>
         (\<not> (merged_min d props > 0 \<or> merged_max d props > 0) \<longrightarrow>
            (\<exists>p. Update_props d props = Inr p \<and> MinCount p = None \<and> MaxCount p = None))"
  using assms unfolding Update_props_def Let_def merged_enabled_def merged_max_def merged_min_def
    if_update_props
  by (auto split: option.splits if_splits)

lemma mutations_Read:
  "mutations (fst (resourceArmKubernetesClusterNodePoolRead ps r h d)) = mutations h"
  by (simp add: resourceArmKubernetesClusterNodePoolRead_def Let_def mutations_def
           split: sum.splits option.splits prod.splits)

lemma mutations_Create_check_existing:
  "mutations (fst (Create_check_existing r h d rg cn n)) = mutations h"
  by (simp add: Create_check_existing_def Let_def mutations_def split: option.splits)

lemma Create_rejected:
  assumes "Create_profile (new d) = Inl e"
  shows "case resourceArmKubernetesClusterNodePoolCreate ps r d of
           (h, d', e') \<Rightarrow> e' \<noteq> None \<and> mutations h = [] \<and> d' = d"
proof (cases "KubernetesClusterID ps (kubernetes_cluster_id (new d))")
  case (Inl a)
  then show ?thesis
    by (simp add: resourceArmKubernetesClusterNodePoolCreate_def mutations_def)
next
  case (Inr kid)
  define h1 where "h1 = [ClustersGet (cid_ResourceGroup kid) (cid_Name kid)]"
  have m1: "mutations h1 = []" by (simp add: h1_def mutations_def)
  obtain h2 x where c: "Create_check_existing r h1 d (cid_ResourceGroup kid) (cid_Name kid) (name (new d)) = (h2, x)"
    by (cases "Create_check_existing r h1 d (cid_ResourceGroup kid) (cid_Name kid) (name (new d))")
  have m2: "mutations h2 = []"
    using mutations_Create_check_existing [of r h1 d "cid_ResourceGroup kid" "cid_Name kid" "name (new d)"]
    by (simp add: c m1)
  show ?thesis
    using Inr assms c m1 m2
    by (simp add: resourceArmKubernetesClusterNodePoolCreate_def Let_def h1_def [symmetric]
             split: option.splits)
qed

lemma Update_props_Partial: "Update_props (d\<lparr>Partial := b\<rparr>) props = Update_props d props"
proof -
  have "old (d\<lparr>Partial := b\<rparr>) = old d" "new (d\<lparr>Partial := b\<rparr>) = new d"
    by simp_all
  then show ?thesis
    unfolding Update_props_def HasChange_def by (simp only:)
qed

lemma Update_rejected:
  assumes "KubernetesNodePoolID ps (Id d) = Inr i"
    and "h1 = [PoolsGet (ResourceGroup i) (ClusterName i) (Name i)]"
    and "err (pools_Get r h1) = None"
    and "ManagedClusterAgentPoolProfileProperties (result (pools_Get r h1)) = Some props"
    and "Update_props d props = Inl e"
  shows "resourceArmKubernetesClusterNodePoolUpdate ps r d = (h1, d\<lparr>Partial := True\<rparr>, Some e)"
  using assms
  by (simp add: resourceArmKubernetesClusterNodePoolUpdate_def Let_def Update_props_Partial)

lemma Update_submitted:
  assumes "KubernetesNodePoolID ps (Id d) = Inr i"
    and "h1 = [PoolsGet (ResourceGroup i) (ClusterName i) (Name i)]"
    and "err (pools_Get r h1) = None"
    and "ManagedClusterAgentPoolProfileProperties (result (pools_Get r h1)) = Some props"
    and "Update_props d props = Inr p"
  shows "mutations (fst (resourceArmKubernetesClusterNodePoolUpdate ps r d)) =
           [PoolsCreateOrUpdate (ResourceGroup i) (ClusterName i) (Name i)
              ((result (pools_Get r h1))\<lparr>ManagedClusterAgentPoolProfileProperties := Some p\<rparr>)]"
  using assms
  by (simp add: resourceArmKubernetesClusterNodePoolUpdate_def Let_def Update_props_Partial
        mutations_Read split: option.splits)
    (simp add: mutations_def)

lemma Create_rejected_exact:
  assumes "KubernetesClusterID ps (kubernetes_cluster_id (new d)) = Inr kid"
    and "h1 = [ClustersGet (cid_ResourceGroup kid) (cid_Name kid)]"
    and "err (clusters_Get r h1) = None"
    and "defaultPoolIsVMSS (result (clusters_Get r h1))"
    and "Create_check_existing r h1 d (cid_ResourceGroup kid) (cid_Name kid) (name (new d)) = (h2, None)"
    and "Create_profile (new d) = Inl e"
  shows "resourceArmKubernetesClusterNodePoolCreate ps r d = (h2, d, Some e)"
  using assms by (simp add: resourceArmKubernetesClusterNodePoolCreate_def Let_def)

subsection \<open>The claims\<close>

text \<open>
  C1 (as amended): the pre-flight check customizeDiff accumulates: with priority
  Regular, a bid price other than zero and an eviction policy, its single error joins
  the message about the bid price and the message about the eviction policy. The checks
  of the auto-scale fields in Create return the first error they meet: with auto-scaling
  on, the missing maximum alone when the maximum is not positive (whatever the minimum
  is), else the missing minimum alone, else the order of the two; with auto-scaling off,
  the error that both must be null.
\<close>

theorem validation_messages:
  "(priority d = Regular \<and> max_bid_price d \<noteq> 0 \<and> eviction_policy d \<noteq> [] \<longrightarrow>
      customizeDiff d =
        Some (ErrorsNew (''`priority` must be set to `Spot` if `max_bid_price` is specified'' @
                         '', `priority` must be set to `Spot` if `eviction_policy` is specified''))) \<and>
   (enable_auto_scaling d \<and> max_count d \<le> 0 \<longrightarrow>
      Create_profile d =
        Inl (Errorf ''`max_count` must be configured when `enable_auto_scaling` is set to `true`'' [])) \<and>
   (enable_auto_scaling d \<and> 0 < max_count d \<and> min_count d \<le> 0 \<longrightarrow>
      Create_profile d =
        Inl (Errorf ''`min_count` must be configured when `enable_auto_scaling` is set to `true`'' [])) \<and>
   (enable_auto_scaling d \<and> 0 < max_count d \<and> 0 < min_count d \<and> max_count d < min_count d \<longrightarrow>
      Create_profile d = Inl (Errorf ''`max_count` must be >= `min_count`'' [])) \<and>
   (\<not> enable_auto_scaling d \<and> (0 < min_count d \<or> 0 < max_count d) \<longrightarrow>
      Create_profile d =
        Inl (Errorf ''`max_count` and `min_count` must be set to `null` when enable_auto_scaling is set to `false`'' []))"
proof -
  have "priority d = Regular \<and> max_bid_price d \<noteq> 0 \<and> eviction_policy d \<noteq> [] \<longrightarrow>
      customizeDiff d =
        Some (ErrorsNew (''`priority` must be set to `Spot` if `max_bid_price` is specified'' @
                         '', `priority` must be set to `Spot` if `eviction_policy` is specified''))"
    by (simp add: customizeDiff_def Let_def)
  moreover have "enable_auto_scaling d \<and> max_count d \<le> 0 \<longrightarrow>
      Create_profile d =
        Inl (Errorf ''`max_count` must be configured when `enable_auto_scaling` is set to `true`'' [])"
    by (simp add: Create_profile_def Let_def)
  moreover have "enable_auto_scaling d \<and> 0 < max_count d \<and> min_count d \<le> 0 \<longrightarrow>
      Create_profile d =
        Inl (Errorf ''`min_count` must be configured when `enable_auto_scaling` is set to `true`'' [])"
    by (simp add: Create_profile_def Let_def)
  moreover have "enable_auto_scaling d \<and> 0 < max_count d \<and> 0 < min_count d \<and> max_count d < min_count d \<longrightarrow>
      Create_profile d = Inl (Errorf ''`max_count` must be >= `min_count`'' [])"
    by (simp add: Create_profile_def Let_def)
  moreover have "\<not> enable_auto_scaling d \<and> (0 < min_count d \<or> 0 < max_count d) \<longrightarrow>
      Create_profile d =
        Inl (Errorf ''`max_count` and `min_count` must be set to `null` when enable_auto_scaling is set to `false`'' [])"
    by (simp add: Create_profile_def Let_def)
  ultimately show ?thesis by blast
qed

theorem validation_messages_witness:
  "customizeDiff (pool1\<lparr>eviction_policy := Delete, max_bid_price := 1 / 2\<rparr>) =
     Some (ErrorsNew ''`priority` must be set to `Spot` if `max_bid_price` is specified, `priority` must be set to `Spot` if `eviction_policy` is specified'') \<and>
   Create_profile (pool1\<lparr>enable_auto_scaling := True, min_count := 5, max_count := 2\<rparr>) =
     Inl (Errorf ''`max_count` must be >= `min_count`'' [])"
  using validation_messages [of "pool1\<lparr>eviction_policy := Delete, max_bid_price := 1 / 2\<rparr>"]
        validation_messages [of "pool1\<lparr>enable_auto_scaling := True, min_count := 5, max_count := 2\<rparr>"]
  by (simp add: pool1_def Regular_def Delete_def)

theorem validation_fail_fast_counterexample:
  "enable_auto_scaling pool_unbounded \<and> min_count pool_unbounded = 0 \<and> max_count pool_unbounded = 0 \<and>
   customizeDiff pool_unbounded = None \<and>
   Create_profile pool_unbounded =
     Inl (Errorf ''`max_count` must be configured when `enable_auto_scaling` is set to `true`'' []) \<and>
   \<not> sublist ''min_count'' ''`max_count` must be configured when `enable_auto_scaling` is set to `true`''"
proof -
  have "\<not> sublist ''min_count'' ''`max_count` must be configured when `enable_auto_scaling` is set to `true`''"
    by code_simp
  moreover have "customizeDiff pool_unbounded = None"
    by (simp add: customizeDiff_def pool_unbounded_def pool1_def)
  moreover have "Create_profile pool_unbounded =
     Inl (Errorf ''`max_count` must be configured when `enable_auto_scaling` is set to `true`'' [])"
    by (simp add: Create_profile_def Let_def pool_unbounded_def pool1_def)
  ultimately show ?thesis
    by (simp add: pool_unbounded_def pool1_def)
qed

text \<open>
  C2 (as amended): for every declared configuration that is valid for the schema and
  passes the checks of Create, writing the profile that Create builds back through Read
  gives no error, and of the keys of the configuration:
  \<^item> the name and the cluster identifier are not taken from the profile: Read writes the
    name of the parsed identifier and the identifier of the fetched cluster, so they are
    reproduced exactly when those are the declared ones;
  \<^item> VM size, availability zones, the two flags, the maximum and minimum counts, OS type,
    subnet, priority, eviction policy, bid price and the taints are reproduced;
  \<^item> the tags and the labels are reproduced when none of their keys is \<^verbatim>\<open>%\<close> or
    \<^verbatim>\<open>#\<close>;
  \<^item> the node count is reproduced, except that with auto-scaling on and no node count
    declared (zero) it reads back as the declared minimum;
  \<^item> the pod count is reproduced when it is from 0 to \<open>2^31 - 1\<close>, the disk size when
    it is below \<open>2^31\<close>.
\<close>

theorem Create_Read_roundtrip:
  assumes "Create_profile d = Inr p" and "schema_valid d"
  shows "case Read_set id_Name cluster_id
                \<lparr>pool_ID = i, pool_Name = Some (name d),
                  ManagedClusterAgentPoolProfileProperties = Some p\<rparr> d0 of
           (d', e) \<Rightarrow> e = None \<and>
             name d' = id_Name \<and>
             kubernetes_cluster_id d' = (case cluster_id of None \<Rightarrow> [] | Some s \<Rightarrow> s) \<and>
             vm_size d' = vm_size d \<and>
             availability_zones d' = availability_zones d \<and>
             enable_auto_scaling d' = enable_auto_scaling d \<and>
             enable_node_public_ip d' = enable_node_public_ip d \<and>
             max_count d' = max_count d \<and>
             min_count d' = min_count d \<and>
             os_type d' = os_type d \<and>
             vnet_subnet_id d' = vnet_subnet_id d \<and>
             priority d' = priority d \<and>
             eviction_policy d' = eviction_policy d \<and>
             max_bid_price d' = max_bid_price d \<and>
             node_taints d' = node_taints d \<and>
             ((\<forall>(k, v) \<in> set (tags d). k \<noteq> ''%'' \<and> k \<noteq> ''#'') \<longrightarrow> tags d' = tags d) \<and>
             ((\<forall>(k, v) \<in> set (node_labels d). k \<noteq> ''%'' \<and> k \<noteq> ''#'') \<longrightarrow>
                node_labels d' = node_labels d) \<and>
             node_count d' = (if enable_auto_scaling d \<and> node_count d = 0
                              then min_count d else node_count d) \<and>
             (0 \<le> max_pods d \<and> max_pods d < 2 ^ 31 \<longrightarrow> max_pods d' = max_pods d) \<and>
             (os_disk_size_gb d < 2 ^ 31 \<longrightarrow> os_disk_size_gb d' = os_disk_size_gb d)"
proof -
  note p = Create_profile_Inr [OF assms(1)]
  have ok: "if enable_auto_scaling d
      then max_count d > 0 \<and> min_count d > 0 \<and> min_count d \<le> max_count d
      else \<not> (min_count d > 0 \<or> max_count d > 0)"
    using assms(1) Create_profile_ok_iff [of d] by blast
  have i32: "int32 (max_count d) = max_count d" "int32 (min_count d) = min_count d"
    "int32 (node_count d) = node_count d"
    using schema_valid_bounds [OF assms(2)] by (simp_all add: int32_id)
  have mx: "(case MaxCount p of None \<Rightarrow> 0 | Some m \<Rightarrow> m) = max_count d"
  proof (cases "enable_auto_scaling d")
    case True
    with i32 show ?thesis by (subst p) simp
  next
    case False
    with ok schema_valid_bounds(3) [OF assms(2)] have "max_count d = 0" by simp
    with False show ?thesis by (subst p) simp
  qed
  have mn: "(case MinCount p of None \<Rightarrow> 0 | Some m \<Rightarrow> m) = min_count d"
  proof (cases "enable_auto_scaling d")
    case True
    with i32 show ?thesis by (subst p) simp
  next
    case False
    with ok schema_valid_bounds(5) [OF assms(2)] have "min_count d = 0" by simp
    with False show ?thesis by (subst p) simp
  qed
  have nc: "(case Count p of None \<Rightarrow> 0 | Some m \<Rightarrow> m) =
      (if enable_auto_scaling d \<and> node_count d = 0 then min_count d else node_count d)"
    using i32 by (subst p) simp
  have mp: "0 \<le> max_pods d \<and> max_pods d < 2 ^ 31 \<longrightarrow>
      (case MaxPods p of None \<Rightarrow> 0 | Some m \<Rightarrow> m) = max_pods d"
  proof
    assume r: "0 \<le> max_pods d \<and> max_pods d < 2 ^ 31"
    then have "int32 (max_pods d) = max_pods d" by (intro int32_id) simp_all
    with r show "(case MaxPods p of None \<Rightarrow> 0 | Some m \<Rightarrow> m) = max_pods d"
      by (subst p) simp
  qed
  have od: "os_disk_size_gb d < 2 ^ 31 \<longrightarrow>
      (case OsDiskSizeGB p of None \<Rightarrow> 0 | Some m \<Rightarrow> m) = os_disk_size_gb d"
  proof
    assume r: "os_disk_size_gb d < 2 ^ 31"
    note n = schema_valid_bounds(7) [OF assms(2)]
    with r have "int32 (os_disk_size_gb d) = os_disk_size_gb d" by (intro int32_id) simp_all
    with n show "(case OsDiskSizeGB p of None \<Rightarrow> 0 | Some m \<Rightarrow> m) = os_disk_size_gb d"
      by (subst p) simp
  qed
  have tg: "(\<forall>(k, v) \<in> set (tags d). k \<noteq> ''%'' \<and> k \<noteq> ''#'') \<longrightarrow>
      Set_map (tags_Flatten (Tags p)) = tags d"
  proof
    assume "\<forall>(k, v) \<in> set (tags d). k \<noteq> ''%'' \<and> k \<noteq> ''#''"
    then have "Set_map (tags d) = tags d"
      unfolding Set_map_def by (intro filter_True) auto
    then show "Set_map (tags_Flatten (Tags p)) = tags d"
      by (subst p) (simp add: tags_roundtrip)
  qed
  have nl: "(\<forall>(k, v) \<in> set (node_labels d). k \<noteq> ''%'' \<and> k \<noteq> ''#'') \<longrightarrow>
      Set_map_ptr (NodeLabels p) = node_labels d"
  proof
    assume "\<forall>(k, v) \<in> set (node_labels d). k \<noteq> ''%'' \<and> k \<noteq> ''#''"
    then have s: "Set_map (node_labels d) = node_labels d"
      unfolding Set_map_def by (intro filter_True) auto
    have e: "map (\<lambda>(k, v). (k, case v of None \<Rightarrow> [] | Some s \<Rightarrow> s))
               (ExpandMapStringPtrString (node_labels d)) = node_labels d"
      unfolding ExpandMapStringPtrString_def by (rule deref_entries_Some)
    show "Set_map_ptr (NodeLabels p) = node_labels d"
      by (subst p) (simp add: Set_map_ptr_def e s)
  qed
  have nt: "FlattenStringSlice (NodeTaints p) = node_taints d"
    by (subst p) (simp add: FlattenStringSlice_def)
  have az: "FlattenStringSlice (AvailabilityZones p) = availability_zones d"
    by (subst p) (simp add: FlattenStringSlice_def)
  have en: "(case EnableAutoScaling p of None \<Rightarrow> False | Some b \<Rightarrow> b) = enable_auto_scaling d"
    by (subst p) simp
  have ip: "(case EnableNodePublicIP p of None \<Rightarrow> False | Some b \<Rightarrow> b) = enable_node_public_ip d"
    by (subst p) simp
  have vn: "(case VnetSubnetID p of None \<Rightarrow> [] | Some s \<Rightarrow> s) = vnet_subnet_id d"
    by (subst p) simp
  have bp: "(case SpotMaxPrice p of None \<Rightarrow> 0 | Some x \<Rightarrow> x) = max_bid_price d"
    by (subst p) simp
  have st: "OsType p = os_type d" "VMSize p = vm_size d" "ScaleSetPriority p = priority d"
    "ScaleSetEvictionPolicy p = eviction_policy d"
    by (subst p, simp)+
  have R: "Read_set id_Name cluster_id
                \<lparr>pool_ID = i, pool_Name = Some (name d),
                  ManagedClusterAgentPoolProfileProperties = Some p\<rparr> d0 =
      (d0\<lparr>name := id_Name,
          kubernetes_cluster_id := (case cluster_id of None \<Rightarrow> [] | Some s \<Rightarrow> s),
          availability_zones := availability_zones d,
          enable_auto_scaling := enable_auto_scaling d,
          enable_node_public_ip := enable_node_public_ip d,
          max_count := max_count d,
          max_pods := (case MaxPods p of None \<Rightarrow> 0 | Some m \<Rightarrow> m),
          min_count := min_count d,
          node_count := (if enable_auto_scaling d \<and> node_count d = 0
                         then min_count d else node_count d),
          node_labels := Set_map_ptr (NodeLabels p),
          node_taints := node_taints d,
          os_disk_size_gb := (case OsDiskSizeGB p of None \<Rightarrow> 0 | Some m \<Rightarrow> m),
          os_type := os_type d,
          vnet_subnet_id := vnet_subnet_id d,
          vm_size := vm_size d,
          priority := priority d,
          eviction_policy := eviction_policy d,
          max_bid_price := max_bid_price d,
          tags := Set_map (tags_Flatten (Tags p))\<rparr>, None)"
    unfolding Read_set_def Let_def
    by (simp only: agent_pool.simps option.case mx mn nc az en ip vn bp st nt)
  show ?thesis
    unfolding R prod.case
    by (intro conjI; (simp; fail)?) (use tg nl mp od in simp_all)
qed

theorem Create_Read_roundtrip_witness:
  "case Create_profile spot_pool of
     Inl e \<Rightarrow> False
   | Inr p \<Rightarrow>
      (case Read_set ''pool1'' (Some ''cluster1'')
              \<lparr>pool_ID = None, pool_Name = Some ''pool1'',
                ManagedClusterAgentPoolProfileProperties = Some p\<rparr> pool1 of
         (d', e) \<Rightarrow> e = None \<and> name d' = ''pool1'' \<and> kubernetes_cluster_id d' = ''cluster1'' \<and>
           tags d' = [(''env'', ''test'')] \<and> node_labels d' = [(''tier'', ''batch'')] \<and>
           node_taints d' = [''spot=true:NoSchedule''] \<and>
           availability_zones d' = [''1'', ''2''] \<and> priority d' = Spot \<and>
           eviction_policy d' = Delete \<and> max_bid_price d' = 1 / 2 \<and>
           vnet_subnet_id d' = ''subnet1'' \<and> max_count d' = 0 \<and> min_count d' = 0 \<and>
           node_count d' = 3 \<and> max_pods d' = 30 \<and> os_disk_size_gb d' = 64)"
proof -
  obtain p where p: "Create_profile spot_pool = Inr p"
    using Create_profile_ok_iff [of spot_pool] by (auto simp: spot_pool_def pool1_def)
  have v: "schema_valid spot_pool"
    by (simp add: schema_valid_def spot_pool_def pool1_def Linux_def Regular_def Spot_def Delete_def)
  have n: "name spot_pool = ''pool1''"
    by (simp add: spot_pool_def pool1_def)
  have f: "tags spot_pool = [(''env'', ''test'')]" "availability_zones spot_pool = [''1'', ''2'']"
    "priority spot_pool = Spot" "eviction_policy spot_pool = Delete" "max_bid_price spot_pool = 1 / 2"
    "vnet_subnet_id spot_pool = ''subnet1''" "max_count spot_pool = 0" "min_count spot_pool = 0"
    "node_labels spot_pool = [(''tier'', ''batch'')]" "node_taints spot_pool = [''spot=true:NoSchedule'']"
    "node_count spot_pool = 3" "max_pods spot_pool = 30" "os_disk_size_gb spot_pool = 64"
    "enable_auto_scaling spot_pool = False"
    by (simp_all add: spot_pool_def pool1_def)
  from Create_Read_roundtrip [OF p v, where id_Name = "''pool1''" and cluster_id = "Some ''cluster1''"
         and i = None and ?d0.0 = pool1]
  show ?thesis
    unfolding n f by (simp add: p split: prod.splits)
qed

theorem Create_Read_roundtrip_counterexample:
  "schema_valid pool_autoscaled \<and>
   customizeDiff pool_autoscaled = None \<and>
   Create_profile pool_autoscaled = Inr autoscaled_profile \<and>
   node_count pool_autoscaled = 0 \<and>
   node_count (fst (Read_set ''pool1'' (Some ''cluster1'')
        \<lparr>pool_ID = None, pool_Name = Some ''pool1'',
          ManagedClusterAgentPoolProfileProperties = Some autoscaled_profile\<rparr> pool_autoscaled)) = 2"
proof -
  have "schema_valid pool_autoscaled"
    by (simp add: schema_valid_def pool_autoscaled_def pool1_def Linux_def Regular_def)
  moreover have "customizeDiff pool_autoscaled = None"
    by (simp add: customizeDiff_def pool_autoscaled_def pool1_def)
  moreover have "Create_profile pool_autoscaled = Inr autoscaled_profile"
    by (simp add: Create_profile_def Let_def pool_autoscaled_def pool1_def autoscaled_profile_def
          ExpandStringSlice_def ExpandMapStringPtrString_def tags_Expand_def int32_def)
  moreover have "node_count pool_autoscaled = 0"
    by (simp add: pool_autoscaled_def pool1_def)
  moreover have "node_count (fst (Read_set ''pool1'' (Some ''cluster1'')
        \<lparr>pool_ID = None, pool_Name = Some ''pool1'',
          ManagedClusterAgentPoolProfileProperties = Some autoscaled_profile\<rparr> pool_autoscaled)) = 2"
    by (simp add: Read_set_def Let_def autoscaled_profile_def)
  ultimately show ?thesis by blast
qed

text \<open>
  C3 (as amended): on Create, for every declared configuration that is valid for the
  schema and has auto-scaling off, a minimum or maximum count other than zero makes the
  checks return the error that both must be null, and the operation fails without any
  mutating call and without changing the resource data (with that very error once the
  cluster is fetched, compatible and the pool is not found to exist). On Update the check is made on
  the merged values (the declared value of a key that changed, the fetched value of a
  key that did not): when the merged flag is off and the merged minimum or maximum is
  positive, the operation fails with the error that both must be nil right after the
  fetch of the pool, before any mutating call.
\<close>

theorem autoscale_off_rejects_counts:
  "(\<not> enable_auto_scaling (new d) \<and> (min_count (new d) \<noteq> 0 \<or> max_count (new d) \<noteq> 0) \<and>
      schema_valid (new d) \<longrightarrow>
      Create_profile (new d) =
        Inl (Errorf ''`max_count` and `min_count` must be set to `null` when enable_auto_scaling is set to `false`'' []) \<and>
      (case resourceArmKubernetesClusterNodePoolCreate ps r d of
         (h, d', e) \<Rightarrow> e \<noteq> None \<and> mutations h = [] \<and> d' = d) \<and>
      (KubernetesClusterID ps (kubernetes_cluster_id (new d)) = Inr kid \<and>
       err (clusters_Get r [ClustersGet (cid_ResourceGroup kid) (cid_Name kid)]) = None \<and>
       defaultPoolIsVMSS (result (clusters_Get r [ClustersGet (cid_ResourceGroup kid) (cid_Name kid)])) \<and>
       Create_check_existing r [ClustersGet (cid_ResourceGroup kid) (cid_Name kid)] d
         (cid_ResourceGroup kid) (cid_Name kid) (name (new d)) = (h2, None) \<longrightarrow>
       resourceArmKubernetesClusterNodePoolCreate ps r d =
         (h2, d, Some (Errorf ''`max_count` and `min_count` must be set to `null` when enable_auto_scaling is set to `false`'' [])))) \<and>
   (\<not> merged_enabled u props \<and> (0 < merged_min u props \<or> 0 < merged_max u props) \<longrightarrow>
      Update_props u props =
        Inl (Errorf ''`max_count` and `min_count` must be set to `nil` when enable_auto_scaling is set to `false`'' []) \<and>
      (KubernetesNodePoolID ps (Id u) = Inr i \<and>
       err (pools_Get r [PoolsGet (ResourceGroup i) (ClusterName i) (Name i)]) = None \<and>
       ManagedClusterAgentPoolProfileProperties
         (result (pools_Get r [PoolsGet (ResourceGroup i) (ClusterName i) (Name i)])) = Some props \<longrightarrow>
       resourceArmKubernetesClusterNodePoolUpdate ps r u =
         ([PoolsGet (ResourceGroup i) (ClusterName i) (Name i)], u\<lparr>Partial := True\<rparr>,
          Some (Errorf ''`max_count` and `min_count` must be set to `nil` when enable_auto_scaling is set to `false`'' []))))"
proof (intro conjI impI)
  assume a: "\<not> enable_auto_scaling (new d) \<and> (min_count (new d) \<noteq> 0 \<or> max_count (new d) \<noteq> 0) \<and>
      schema_valid (new d)"
  then have pos: "0 < min_count (new d) \<or> 0 < max_count (new d)"
    by (auto simp: schema_valid_def)
  with a show c: "Create_profile (new d) =
        Inl (Errorf ''`max_count` and `min_count` must be set to `null` when enable_auto_scaling is set to `false`'' [])"
    by (simp add: Create_profile_def Let_def)
  from Create_rejected [OF c]
  show "case resourceArmKubernetesClusterNodePoolCreate ps r d of
         (h, d', e) \<Rightarrow> e \<noteq> None \<and> mutations h = [] \<and> d' = d" .
  assume g: "KubernetesClusterID ps (kubernetes_cluster_id (new d)) = Inr kid \<and>
       err (clusters_Get r [ClustersGet (cid_ResourceGroup kid) (cid_Name kid)]) = None \<and>
       defaultPoolIsVMSS (result (clusters_Get r [ClustersGet (cid_ResourceGroup kid) (cid_Name kid)])) \<and>
       Create_check_existing r [ClustersGet (cid_ResourceGroup kid) (cid_Name kid)] d
         (cid_ResourceGroup kid) (cid_Name kid) (name (new d)) = (h2, None)"
  from g have g1: "KubernetesClusterID ps (kubernetes_cluster_id (new d)) = Inr kid"
    and g2: "err (clusters_Get r [ClustersGet (cid_ResourceGroup kid) (cid_Name kid)]) = None"
    and g3: "defaultPoolIsVMSS (result (clusters_Get r [ClustersGet (cid_ResourceGroup kid) (cid_Name kid)]))"
    and g4: "Create_check_existing r [ClustersGet (cid_ResourceGroup kid) (cid_Name kid)] d
         (cid_ResourceGroup kid) (cid_Name kid) (name (new d)) = (h2, None)"
    by simp_all
  show "resourceArmKubernetesClusterNodePoolCreate ps r d =
         (h2, d, Some (Errorf ''`max_count` and `min_count` must be set to `null` when enable_auto_scaling is set to `false`'' []))"
    by (rule Create_rejected_exact [OF g1 refl g2 g3 g4 c])
next
  assume b: "\<not> merged_enabled u props \<and> (0 < merged_min u props \<or> 0 < merged_max u props)"
  with Update_props_disabled [of u props]
  show "Update_props u props =
        Inl (Errorf ''`max_count` and `min_count` must be set to `nil` when enable_auto_scaling is set to `false`'' [])"
    by blast
next
  assume b: "\<not> merged_enabled u props \<and> (0 < merged_min u props \<or> 0 < merged_max u props)"
    and f: "KubernetesNodePoolID ps (Id u) = Inr i \<and>
       err (pools_Get r [PoolsGet (ResourceGroup i) (ClusterName i) (Name i)]) = None \<and>
       ManagedClusterAgentPoolProfileProperties
         (result (pools_Get r [PoolsGet (ResourceGroup i) (ClusterName i) (Name i)])) = Some props"
  from b Update_props_disabled [of u props]
  have e: "Update_props u props =
        Inl (Errorf ''`max_count` and `min_count` must be set to `nil` when enable_auto_scaling is set to `false`'' [])"
    by blast
  from f show "resourceArmKubernetesClusterNodePoolUpdate ps r u =
         ([PoolsGet (ResourceGroup i) (ClusterName i) (Name i)], u\<lparr>Partial := True\<rparr>,
          Some (Errorf ''`max_count` and `min_count` must be set to `nil` when enable_auto_scaling is set to `false`'' []))"
    by (intro Update_rejected [OF _ refl _ _ e]) simp_all
qed

theorem autoscale_off_rejects_counts_witness:
  "resourceArmKubernetesClusterNodePoolCreate parsers1
      (fixed_remote (got cluster_vmss) (not_found no_pool)) (data1\<lparr>new := pool1\<lparr>max_count := 5\<rparr>\<rparr>) =
     ([ClustersGet ''rg1'' ''cluster1'', PoolsGet ''rg1'' ''cluster1'' ''pool1''],
      data1\<lparr>new := pool1\<lparr>max_count := 5\<rparr>\<rparr>,
      Some (Errorf ''`max_count` and `min_count` must be set to `null` when enable_auto_scaling is set to `false`'' [])) \<and>
   resourceArmKubernetesClusterNodePoolUpdate parsers1 remote2 data_min_added =
     ([PoolsGet ''rg1'' ''cluster1'' ''pool1''], data_min_added\<lparr>Partial := True\<rparr>,
      Some (Errorf ''`max_count` and `min_count` must be set to `nil` when enable_auto_scaling is set to `false`'' []))"
proof -
  let ?d = "data1\<lparr>new := pool1\<lparr>max_count := 5\<rparr>\<rparr>"
  let ?i = "\<lparr>ResourceGroup = ''rg1'', ClusterName = ''cluster1'', Name = ''pool1''\<rparr>"
  have c: "\<not> enable_auto_scaling (new ?d) \<and> (min_count (new ?d) \<noteq> 0 \<or> max_count (new ?d) \<noteq> 0) \<and>
      schema_valid (new ?d)"
    by (simp add: data1_def pool1_def schema_valid_def Linux_def Regular_def)
  have m: "\<not> merged_enabled data_min_added remote_profile_fixed \<and>
      (0 < merged_min data_min_added remote_profile_fixed \<or> 0 < merged_max data_min_added remote_profile_fixed)"
    by (simp add: merged_enabled_def merged_min_def merged_max_def HasChange_def data_min_added_def
          remote_profile_fixed_def remote_profile_def pool1_def int32_def)
  have f: "KubernetesNodePoolID parsers1 (Id data_min_added) = Inr ?i \<and>
       err (pools_Get remote2 [PoolsGet (ResourceGroup ?i) (ClusterName ?i) (Name ?i)]) = None \<and>
       ManagedClusterAgentPoolProfileProperties
         (result (pools_Get remote2 [PoolsGet (ResourceGroup ?i) (ClusterName ?i) (Name ?i)])) = Some remote_profile_fixed"
    by (simp add: parsers1_def data_min_added_def remote2_def fixed_remote_def got_def remote_pool_fixed_def)
  let ?r = "fixed_remote (got cluster_vmss) (not_found no_pool)"
  let ?kid = "\<lparr>cid_ResourceGroup = ''rg1'', cid_Name = ''cluster1''\<rparr>"
  let ?h2 = "[ClustersGet ''rg1'' ''cluster1'', PoolsGet ''rg1'' ''cluster1'' ''pool1'']"
  have g: "KubernetesClusterID parsers1 (kubernetes_cluster_id (new ?d)) = Inr ?kid \<and>
       err (clusters_Get ?r [ClustersGet (cid_ResourceGroup ?kid) (cid_Name ?kid)]) = None \<and>
       defaultPoolIsVMSS (result (clusters_Get ?r [ClustersGet (cid_ResourceGroup ?kid) (cid_Name ?kid)])) \<and>
       Create_check_existing ?r [ClustersGet (cid_ResourceGroup ?kid) (cid_Name ?kid)] ?d
         (cid_ResourceGroup ?kid) (cid_Name ?kid) (name (new ?d)) = (?h2, None)"
    by (simp add: parsers1_def data1_def pool1_def fixed_remote_def got_def not_found_def
          cluster_vmss_def defaultPoolIsVMSS_def Create_check_existing_def Let_def no_pool_def)
  from autoscale_off_rejects_counts [of ?d parsers1 ?r ?kid ?h2] c g
  have 1: "resourceArmKubernetesClusterNodePoolCreate parsers1 ?r ?d =
     (?h2, ?d, Some (Errorf ''`max_count` and `min_count` must be set to `null` when enable_auto_scaling is set to `false`'' []))"
    by blast
  from autoscale_off_rejects_counts [of _ parsers1 remote2 _ _ data_min_added remote_profile_fixed ?i] m f
  have 2: "resourceArmKubernetesClusterNodePoolUpdate parsers1 remote2 data_min_added =
     ([PoolsGet ''rg1'' ''cluster1'' ''pool1''], data_min_added\<lparr>Partial := True\<rparr>,
      Some (Errorf ''`max_count` and `min_count` must be set to `nil` when enable_auto_scaling is set to `false`'' []))"
    by simp
  from 1 2 show ?thesis by simp
qed

theorem autoscale_off_update_counterexample:
  "\<not> enable_auto_scaling (new data_max_added) \<and> max_count (new data_max_added) = 4 \<and>
   snd (snd (resourceArmKubernetesClusterNodePoolUpdate parsers1 remote1 data_max_added)) = None \<and>
   mutations (fst (resourceArmKubernetesClusterNodePoolUpdate parsers1 remote1 data_max_added)) =
     [PoolsCreateOrUpdate ''rg1'' ''cluster1'' ''pool1''
        (remote_pool\<lparr>ManagedClusterAgentPoolProfileProperties :=
           Some (remote_profile\<lparr>MaxCount := Some 4\<rparr>)\<rparr>)]"
  by (simp add: resourceArmKubernetesClusterNodePoolUpdate_def Update_props_def HasChange_def
        resourceArmKubernetesClusterNodePoolRead_def Read_set_def Set_map_def Set_map_ptr_def
        tags_Flatten_def FlattenStringSlice_def Let_def mutations_def
        parsers1_def remote1_def fixed_remote_def got_def data_max_added_def pool1_def
        remote_pool_def remote_profile_def cluster_vmss_def int32_def)

text \<open>
  C4 (as amended): on Create, for every declared configuration with auto-scaling on, the
  checks pass exactly when the maximum and the minimum count are both greater than 0 and
  the minimum is at most the maximum (so equal counts pass and a minimum above the
  maximum fails). On Update the checks are made on the merged values (the declared value
  of a key that changed, the fetched value of a key that did not): with the merged flag
  on they pass exactly when the merged maximum and minimum are both other than 0 and the
  merged minimum is at most the merged maximum.
\<close>

theorem autoscale_on_validation:
  "(enable_auto_scaling d \<longrightarrow>
      ((\<exists>p. Create_profile d = Inr p) \<longleftrightarrow>
         0 < max_count d \<and> 0 < min_count d \<and> min_count d \<le> max_count d)) \<and>
   (merged_enabled u props \<longrightarrow>
      ((\<exists>p. Update_props u props = Inr p) \<longleftrightarrow>
         merged_max u props \<noteq> 0 \<and> merged_min u props \<noteq> 0 \<and>
         merged_min u props \<le> merged_max u props))"
proof (intro conjI impI)
  assume "enable_auto_scaling d"
  then show "(\<exists>p. Create_profile d = Inr p) \<longleftrightarrow>
         0 < max_count d \<and> 0 < min_count d \<and> min_count d \<le> max_count d"
    by (simp add: Create_profile_ok_iff)
next
  assume m: "merged_enabled u props"
  note cases = Update_props_enabled [OF m]
  show "(\<exists>p. Update_props u props = Inr p) \<longleftrightarrow>
         merged_max u props \<noteq> 0 \<and> merged_min u props \<noteq> 0 \<and>
         merged_min u props \<le> merged_max u props"
  proof
    assume "\<exists>p. Update_props u props = Inr p"
    then obtain p where p: "Update_props u props = Inr p" ..
    show "merged_max u props \<noteq> 0 \<and> merged_min u props \<noteq> 0 \<and>
         merged_min u props \<le> merged_max u props"
    proof (rule ccontr)
      assume "\<not> (merged_max u props \<noteq> 0 \<and> merged_min u props \<noteq> 0 \<and>
         merged_min u props \<le> merged_max u props)"
      then consider "merged_max u props = 0"
        | "merged_max u props \<noteq> 0" "merged_min u props = 0"
        | "merged_max u props \<noteq> 0" "merged_min u props \<noteq> 0" "merged_min u props > merged_max u props"
        by linarith
      then show False
        using cases p by cases simp_all
    qed
  next
    assume "merged_max u props \<noteq> 0 \<and> merged_min u props \<noteq> 0 \<and>
         merged_min u props \<le> merged_max u props"
    with cases show "\<exists>p. Update_props u props = Inr p" by blast
  qed
qed

theorem autoscale_on_validation_witness:
  "(\<exists>p. Create_profile pool_equal_bounds = Inr p) \<and>
   (\<exists>p. Update_props data_flag_on remote_profile = Inr p)"
proof -
  have c: "enable_auto_scaling pool_equal_bounds" "max_count pool_equal_bounds = 2"
    "min_count pool_equal_bounds = 2"
    by (simp_all add: pool_equal_bounds_def pool1_def)
  have u: "merged_enabled data_flag_on remote_profile" "merged_max data_flag_on remote_profile = 5"
    "merged_min data_flag_on remote_profile = 1"
    by (simp_all add: merged_enabled_def merged_max_def merged_min_def HasChange_def
          data_flag_on_def remote_profile_def pool1_def)
  from autoscale_on_validation [of pool_equal_bounds data_flag_on remote_profile]
  show ?thesis by (simp add: c u)
qed

theorem autoscale_on_update_counterexample:
  "enable_auto_scaling (new data_flag_on) \<and> min_count (new data_flag_on) = 0 \<and>
   max_count (new data_flag_on) = 0 \<and>
   snd (snd (resourceArmKubernetesClusterNodePoolUpdate parsers1 remote1 data_flag_on)) = None \<and>
   mutations (fst (resourceArmKubernetesClusterNodePoolUpdate parsers1 remote1 data_flag_on)) =
     [PoolsCreateOrUpdate ''rg1'' ''cluster1'' ''pool1'' remote_pool]"
  by (simp add: resourceArmKubernetesClusterNodePoolUpdate_def Update_props_def HasChange_def
        resourceArmKubernetesClusterNodePoolRead_def Read_set_def Set_map_def Set_map_ptr_def
        tags_Flatten_def FlattenStringSlice_def Let_def mutations_def
        parsers1_def remote1_def fixed_remote_def got_def data_flag_on_def pool1_def
        remote_pool_def remote_profile_def cluster_vmss_def int32_def)

text \<open>
  C5 (as amended): for every update that fetches the pool and whose merged flag is off,
  either the merged minimum or maximum is positive, and then the update fails with the
  error that both must be nil and submits nothing, or neither is positive, and then the
  one payload it submits has the minimum and the maximum count nil.
\<close>

theorem Update_autoscale_off_clears_bounds:
  assumes "KubernetesNodePoolID ps (Id d) = Inr i"
    and "h1 = [PoolsGet (ResourceGroup i) (ClusterName i) (Name i)]"
    and "err (pools_Get r h1) = None"
    and "ManagedClusterAgentPoolProfileProperties (result (pools_Get r h1)) = Some props"
    and "\<not> merged_enabled d props"
  shows "if 0 < merged_min d props \<or> 0 < merged_max d props
         then resourceArmKubernetesClusterNodePoolUpdate ps r d =
                (h1, d\<lparr>Partial := True\<rparr>,
                 Some (Errorf ''`max_count` and `min_count` must be set to `nil` when enable_auto_scaling is set to `false`'' []))
         else (\<exists>p. Update_props d props = Inr p \<and> MinCount p = None \<and> MaxCount p = None \<and>
                 mutations (fst (resourceArmKubernetesClusterNodePoolUpdate ps r d)) =
                   [PoolsCreateOrUpdate (ResourceGroup i) (ClusterName i) (Name i)
                      ((result (pools_Get r h1))\<lparr>ManagedClusterAgentPoolProfileProperties := Some p\<rparr>)])"
proof (cases "0 < merged_min d props \<or> 0 < merged_max d props")
  case True
  with Update_props_disabled [OF assms(5)]
  have "Update_props d props =
      Inl (Errorf ''`max_count` and `min_count` must be set to `nil` when enable_auto_scaling is set to `false`'' [])"
    by blast
  from Update_rejected [OF assms(1-4) this] True show ?thesis
    by simp
next
  case False
  with Update_props_disabled [OF assms(5)]
  obtain p where p: "Update_props d props = Inr p" "MinCount p = None" "MaxCount p = None"
    by blast
  from Update_submitted [OF assms(1-4) p(1)] p False show ?thesis
    by auto
qed

theorem Update_autoscale_off_clears_bounds_witness:
  "mutations (fst (resourceArmKubernetesClusterNodePoolUpdate parsers1 remote1 data_flag_off_cleared)) =
     [PoolsCreateOrUpdate ''rg1'' ''cluster1'' ''pool1''
        (remote_pool\<lparr>ManagedClusterAgentPoolProfileProperties :=
           Some (remote_profile\<lparr>EnableAutoScaling := Some False, MaxCount := None, MinCount := None\<rparr>)\<rparr>)]"
proof -
  let ?i = "\<lparr>ResourceGroup = ''rg1'', ClusterName = ''cluster1'', Name = ''pool1''\<rparr>"
  let ?h = "[PoolsGet (ResourceGroup ?i) (ClusterName ?i) (Name ?i)]"
  have i: "KubernetesNodePoolID parsers1 (Id data_flag_off_cleared) = Inr ?i"
    by (simp add: parsers1_def data_flag_off_cleared_def)
  have e: "err (pools_Get remote1 ?h) = None"
    by (simp add: remote1_def fixed_remote_def got_def)
  have g: "pools_Get remote1 = (\<lambda>h. got remote_pool)"
    by (simp add: remote1_def fixed_remote_def)
  have f: "ManagedClusterAgentPoolProfileProperties (result (pools_Get remote1 ?h)) = Some remote_profile"
    by (simp add: remote1_def fixed_remote_def got_def remote_pool_def)
  have m: "\<not> merged_enabled data_flag_off_cleared remote_profile"
    "merged_min data_flag_off_cleared remote_profile = 0"
    "merged_max data_flag_off_cleared remote_profile = 0"
    by (simp_all add: merged_enabled_def merged_min_def merged_max_def HasChange_def
          data_flag_off_cleared_def pool_scaled_def pool1_def int32_def)
  have u: "Update_props data_flag_off_cleared remote_profile =
      Inr (remote_profile\<lparr>EnableAutoScaling := Some False, MaxCount := None, MinCount := None\<rparr>)"
    by (simp add: Update_props_def HasChange_def Let_def data_flag_off_cleared_def pool_scaled_def
          pool1_def remote_profile_def int32_def)
  from Update_autoscale_off_clears_bounds [OF i refl e f m(1)]
  show ?thesis
    by (simp add: m u g got_def)
qed

theorem Update_autoscale_off_stale_counterexample:
  "\<not> merged_enabled data_flag_off_stale remote_profile \<and>
   resourceArmKubernetesClusterNodePoolUpdate parsers1 remote1 data_flag_off_stale =
     ([PoolsGet ''rg1'' ''cluster1'' ''pool1''], data_flag_off_stale\<lparr>Partial := True\<rparr>,
      Some (Errorf ''`max_count` and `min_count` must be set to `nil` when enable_auto_scaling is set to `false`'' []))"
  by (simp add: resourceArmKubernetesClusterNodePoolUpdate_def Update_props_def HasChange_def
        merged_enabled_def Let_def parsers1_def remote1_def fixed_remote_def got_def
        data_flag_off_stale_def pool_scaled_def pool1_def remote_pool_def remote_profile_def)

text \<open>
  C6: the profile that Create builds always carries a node count, and that count is the
  declared node count (converted to 32 bits), except that with auto-scaling enabled and
  no node count declared (zero) it is the declared minimum; for a configuration that is
  valid for the schema the conversion changes nothing, so the count is the declared node
  count, or the declared minimum in the substituted case.
\<close>

theorem Create_profile_count:
  assumes "Create_profile d = Inr p"
  shows "Count p = Some (if enable_auto_scaling d \<and> node_count d = 0
                         then int32 (min_count d) else int32 (node_count d)) \<and>
         (schema_valid d \<longrightarrow>
            Count p = Some (if enable_auto_scaling d \<and> node_count d = 0
                            then min_count d else node_count d))"
proof -
  have p: "Count p = Some (if enable_auto_scaling d \<and> node_count d = 0
                           then int32 (min_count d) else int32 (node_count d))"
    by (subst Create_profile_Inr [OF assms]) (simp split del: if_split)
  have "int32 (min_count d) = min_count d \<and> int32 (node_count d) = node_count d"
    if "schema_valid d"
    using schema_valid_bounds [OF that] by (simp add: int32_id)
  with p show ?thesis by simp
qed

theorem Create_profile_count_witness:
  "(case Create_profile pool_autoscaled of Inl e \<Rightarrow> False | Inr p \<Rightarrow> Count p = Some 2) \<and>
   (case Create_profile pool1 of Inl e \<Rightarrow> False | Inr p \<Rightarrow> Count p = Some 3)"
proof -
  obtain p where p: "Create_profile pool_autoscaled = Inr p"
    using Create_profile_ok_iff [of pool_autoscaled]
    by (auto simp: pool_autoscaled_def pool1_def)
  obtain q where q: "Create_profile pool1 = Inr q"
    using Create_profile_ok_iff [of pool1] by (auto simp: pool1_def)
  have v: "schema_valid pool_autoscaled" "schema_valid pool1"
    by (simp_all add: schema_valid_def pool_autoscaled_def pool1_def Linux_def Regular_def)
  have f: "enable_auto_scaling pool_autoscaled" "node_count pool_autoscaled = 0"
    "min_count pool_autoscaled = 2" "\<not> enable_auto_scaling pool1" "node_count pool1 = 3"
    by (simp_all add: pool_autoscaled_def pool1_def)
  from Create_profile_count [OF p] Create_profile_count [OF q] v f
  show ?thesis by (simp add: p q int32_def)
qed

text \<open>
  C7: in the profile that Create builds, every optional field whose declared value is
  the zero value (0 for the pod count, the disk size and the bid price, the empty string
  for the subnet and the eviction policy, the empty collection for the zones, the labels
  and the taints) is left nil (the eviction policy, a string, is left empty); a bid price
  of exactly 0 is never put in the profile.
\<close>

theorem Create_profile_omits_unset:
  assumes "Create_profile d = Inr p"
  shows "(max_pods d = 0 \<longrightarrow> MaxPods p = None) \<and>
         (os_disk_size_gb d = 0 \<longrightarrow> OsDiskSizeGB p = None) \<and>
         (max_bid_price d = 0 \<longrightarrow> SpotMaxPrice p = None) \<and>
         (vnet_subnet_id d = [] \<longrightarrow> VnetSubnetID p = None) \<and>
         (eviction_policy d = [] \<longrightarrow> ScaleSetEvictionPolicy p = []) \<and>
         (availability_zones d = [] \<longrightarrow> AvailabilityZones p = None) \<and>
         (node_labels d = [] \<longrightarrow> NodeLabels p = None) \<and>
         (node_taints d = [] \<longrightarrow> NodeTaints p = None)"
proof -
  note p = Create_profile_Inr [OF assms]
  have "max_pods d = 0 \<longrightarrow> MaxPods p = None"
    by (subst p) (simp add: int32_def)
  moreover have "os_disk_size_gb d = 0 \<longrightarrow> OsDiskSizeGB p = None"
    by (subst p) simp
  moreover have "max_bid_price d = 0 \<longrightarrow> SpotMaxPrice p = None"
    by (subst p) simp
  moreover have "vnet_subnet_id d = [] \<longrightarrow> VnetSubnetID p = None"
    by (subst p) simp
  moreover have "eviction_policy d = [] \<longrightarrow> ScaleSetEvictionPolicy p = []"
    by (subst p) simp
  moreover have "availability_zones d = [] \<longrightarrow> AvailabilityZones p = None"
    by (subst p) simp
  moreover have "node_labels d = [] \<longrightarrow> NodeLabels p = None"
    by (subst p) simp
  moreover have "node_taints d = [] \<longrightarrow> NodeTaints p = None"
    by (subst p) simp
  ultimately show ?thesis by blast
qed

theorem Create_profile_omits_unset_witness:
  "case Create_profile pool1 of Inl e \<Rightarrow> False
   | Inr p \<Rightarrow> MaxPods p = None \<and> OsDiskSizeGB p = None \<and> SpotMaxPrice p = None \<and>
       VnetSubnetID p = None \<and> ScaleSetEvictionPolicy p = [] \<and> AvailabilityZones p = None \<and>
       NodeLabels p = None \<and> NodeTaints p = None"
proof -
  obtain p where p: "Create_profile pool1 = Inr p"
    using Create_profile_ok_iff [of pool1] by (auto simp: pool1_def)
  have "max_pods pool1 = 0" "os_disk_size_gb pool1 = 0" "max_bid_price pool1 = 0"
    "vnet_subnet_id pool1 = []" "eviction_policy pool1 = []" "availability_zones pool1 = []"
    "node_labels pool1 = []" "node_taints pool1 = []"
    by (simp_all add: pool1_def)
  with Create_profile_omits_unset [OF p] show ?thesis
    by (simp add: p)
qed

text \<open>
  C8: on Read, once the identifier is parsed, a Not Found answer to the fetch of the
  cluster, or to the fetch of the pool, clears the identifier of the resource and
  returns no error; any other failure of either fetch is returned as an error and the
  resource data is left as it was.
\<close>

theorem Read_not_found_drops_state:
  assumes "KubernetesNodePoolID ps (Id d) = Inr i"
    and "h1 = h @ [ClustersGet (ResourceGroup i) (ClusterName i)]"
    and "h2 = h1 @ [PoolsGet (ResourceGroup i) (ClusterName i) (Name i)]"
  shows "(err (clusters_Get r h1) = Some e \<and> was_not_found (clusters_Get r h1) \<longrightarrow>
            resourceArmKubernetesClusterNodePoolRead ps r h d = (h1, d\<lparr>Id := []\<rparr>, None)) \<and>
         (err (clusters_Get r h1) = Some e \<and> \<not> was_not_found (clusters_Get r h1) \<longrightarrow>
            resourceArmKubernetesClusterNodePoolRead ps r h d =
              (h1, d, Some (Errorf ''retrieving Managed Kubernetes Cluster %q (Resource Group %q): %+v''
                              [ClusterName i, ResourceGroup i, e]))) \<and>
         (err (clusters_Get r h1) = None \<and> err (pools_Get r h2) = Some e \<and>
            was_not_found (pools_Get r h2) \<longrightarrow>
            resourceArmKubernetesClusterNodePoolRead ps r h d = (h2, d\<lparr>Id := []\<rparr>, None)) \<and>
         (err (clusters_Get r h1) = None \<and> err (pools_Get r h2) = Some e \<and>
            \<not> was_not_found (pools_Get r h2) \<longrightarrow>
            resourceArmKubernetesClusterNodePoolRead ps r h d =
              (h2, d, Some (Errorf ''retrieving Node Pool %q (Managed Kubernetes Cluster %q / Resource Group %q): %+v''
                              [Name i, ClusterName i, ResourceGroup i, e])))"
  using assms by (simp add: resourceArmKubernetesClusterNodePoolRead_def Let_def)

theorem Read_not_found_drops_state_witness:
  "resourceArmKubernetesClusterNodePoolRead parsers1
      (fixed_remote (not_found no_cluster) (got remote_pool)) [] data1 =
     ([ClustersGet ''rg1'' ''cluster1''], data1\<lparr>Id := []\<rparr>, None) \<and>
   resourceArmKubernetesClusterNodePoolRead parsers1
      (fixed_remote (got cluster_vmss) (not_found no_pool)) [] data1 =
     ([ClustersGet ''rg1'' ''cluster1'', PoolsGet ''rg1'' ''cluster1'' ''pool1''],
      data1\<lparr>Id := []\<rparr>, None) \<and>
   resourceArmKubernetesClusterNodePoolRead parsers1
      (fixed_remote (failed no_cluster) (got remote_pool)) [] data1 =
     ([ClustersGet ''rg1'' ''cluster1''], data1,
      Some (Errorf ''retrieving Managed Kubernetes Cluster %q (Resource Group %q): %+v''
              [''cluster1'', ''rg1'', ''500 Internal Server Error'']))"
proof -
  let ?i = "\<lparr>ResourceGroup = ''rg1'', ClusterName = ''cluster1'', Name = ''pool1''\<rparr>"
  have i: "KubernetesNodePoolID parsers1 (Id data1) = Inr ?i"
    by (simp add: parsers1_def data1_def)
  show ?thesis
    using Read_not_found_drops_state [OF i refl refl,
            of "fixed_remote (not_found no_cluster) (got remote_pool)" "[]" "''404 Not Found''"]
          Read_not_found_drops_state [OF i refl refl,
            of "fixed_remote (got cluster_vmss) (not_found no_pool)" "[]" "''404 Not Found''"]
          Read_not_found_drops_state [OF i refl refl,
            of "fixed_remote (failed no_cluster) (got remote_pool)" "[]" "''500 Internal Server Error''"]
    by (simp add: fixed_remote_def not_found_def got_def failed_def)
qed

text \<open>
  C9: on Create, once the cluster is fetched, a cluster none of whose agent pool
  profiles is a scale set makes the operation fail with the error about the default
  node pool; the only remote call issued is the fetch of the cluster (no check for an
  existing pool, no submission), and the resource data is left as it was.
\<close>

theorem Create_incompatible_parent:
  assumes "KubernetesClusterID ps (kubernetes_cluster_id (new d)) = Inr kid"
    and "h1 = [ClustersGet (cid_ResourceGroup kid) (cid_Name kid)]"
    and "err (clusters_Get r h1) = None"
    and "\<not> defaultPoolIsVMSS (result (clusters_Get r h1))"
  shows "resourceArmKubernetesClusterNodePoolCreate ps r d =
           (h1, d, Some (Errorf ''The Default Node Pool for Kubernetes Cluster %q (Resource Group %q) must be a VirtualMachineScaleSet to attach multiple node pools!''
                           [cid_Name kid, cid_ResourceGroup kid])) \<and>
         mutations h1 = []"
  using assms by (simp add: resourceArmKubernetesClusterNodePoolCreate_def Let_def mutations_def)

theorem Create_incompatible_parent_witness:
  "resourceArmKubernetesClusterNodePoolCreate parsers1
      (fixed_remote (got cluster_avset) (not_found no_pool)) data1 =
     ([ClustersGet ''rg1'' ''cluster1''], data1,
      Some (Errorf ''The Default Node Pool for Kubernetes Cluster %q (Resource Group %q) must be a VirtualMachineScaleSet to attach multiple node pools!''
              [''cluster1'', ''rg1'']))"
proof -
  let ?kid = "\<lparr>cid_ResourceGroup = ''rg1'', cid_Name = ''cluster1''\<rparr>"
  let ?r = "fixed_remote (got cluster_avset) (not_found no_pool)"
  have k: "KubernetesClusterID parsers1 (kubernetes_cluster_id (new data1)) = Inr ?kid"
    by (simp add: parsers1_def data1_def pool1_def)
  have e: "err (clusters_Get ?r [ClustersGet (cid_ResourceGroup ?kid) (cid_Name ?kid)]) = None"
    by (simp add: fixed_remote_def got_def)
  have n: "\<not> defaultPoolIsVMSS (result (clusters_Get ?r [ClustersGet (cid_ResourceGroup ?kid) (cid_Name ?kid)]))"
    by (simp add: fixed_remote_def got_def cluster_avset_def defaultPoolIsVMSS_def
          VirtualMachineScaleSets_def)
  from Create_incompatible_parent [OF k refl e n] show ?thesis
    by simp
qed

text \<open>
  C10: the pre-flight check returns an error exactly when the priority is Regular and
  the eviction policy is not empty or the bid price is not zero; for the priority Spot
  it always succeeds, whatever the eviction policy and the bid price are.
\<close>

theorem customizeDiff_error_iff:
  "(customizeDiff d \<noteq> None \<longleftrightarrow>
      priority d = Regular \<and> (eviction_policy d \<noteq> [] \<or> max_bid_price d \<noteq> 0)) \<and>
   (priority d = Spot \<longrightarrow> customizeDiff d = None)"
  by (simp add: customizeDiff_def Let_def Regular_def Spot_def)

theorem customizeDiff_error_iff_witness:
  "customizeDiff (pool1\<lparr>priority := Spot, eviction_policy := Delete, max_bid_price := 1 / 2\<rparr>) = None \<and>
   customizeDiff (pool1\<lparr>max_bid_price := 1 / 2\<rparr>) \<noteq> None"
  using customizeDiff_error_iff [of "pool1\<lparr>priority := Spot, eviction_policy := Delete, max_bid_price := 1 / 2\<rparr>"]
        customizeDiff_error_iff [of "pool1\<lparr>max_bid_price := 1 / 2\<rparr>"]
  by (simp add: pool1_def Spot_def Regular_def)

end
